theory Spec2Isabelle
  imports Main "HOL-Library.Word"
begin

section \<open>Error codes, flag words and file descriptors\<close>

text \<open>
  \<^verbatim>\<open>errcode_t\<close> is an integer whose value 0 means success.  The codes that
  \<^verbatim>\<open>libtunefs.c\<close> and \<^verbatim>\<open>feature_inline_data.c\<close> name are constructors;
  \<open>ET_OTHER\<close> stands for every other code a library call may hand back.  A value
  of type \<open>errcode_t\<close> is \<open>None\<close> for 0 and \<open>Some c\<close> for the code \<open>c\<close>, so
  the C test \<^verbatim>\<open>if (err)\<close> reads \<open>err \<noteq> None\<close>.
\<close>

datatype errcode =
    TUNEFS_ET_NO_MEMORY
  | TUNEFS_ET_SIGNALS_FAILED
  | TUNEFS_ET_INTERNAL_FAILURE
  | TUNEFS_ET_INVALID_STACK_NAME
  | TUNEFS_ET_PERFORM_ONLINE
  | TUNEFS_ET_DEVICE_BUSY
  | TUNEFS_ET_JOURNAL_DIRTY
  | TUNEFS_ET_NOT_MOUNTED
  | TUNEFS_ET_ONLINE_FAILED
  | TUNEFS_ET_HEARTBEAT_DEV
  | TUNEFS_ET_RESIZE_IN_PROGRESS
  | TUNEFS_ET_TUNEFS_IN_PROGRESS
  | OCFS2_ET_NAMED_DEVICE_NOT_FOUND
  | OCFS2_ET_IO
  | OCFS2_ET_CORRUPT_CHAIN
  | OCFS2_ET_NO_SPACE
  | O2CB_ET_INVALID_STACK_NAME
  | O2DLM_ET_TRYLOCK_FAILED
  | ET_OTHER nat

type_synonym errcode_t = "errcode option"

datatype errno = EBUSY | ENOENT | EBADF | EFAULT | ENOTTY | E_OTHER nat

text \<open>
  The flag words of the program are bit masks whose bit values are declared in headers
  (\<^verbatim>\<open>libtunefs.h\<close>, \<^verbatim>\<open>ocfs2.h\<close>, \<^verbatim>\<open>ocfs2_fs.h\<close>) that are not among the sources at
  hand.  A flag word is modelled as the set of the flags it has set: \<^verbatim>\<open>w & F\<close> is
  \<open>F \<in> w\<close>, \<^verbatim>\<open>w | F\<close> is \<open>insert F w\<close> and \<^verbatim>\<open>w & ~(F | G)\<close> is \<open>w - {F, G}\<close>.
  \<^verbatim>\<open>TUNEFS_FLAG_RO\<close> is the absence of \<^verbatim>\<open>TUNEFS_FLAG_RW\<close>.
\<close>

datatype tunefs_flag =
    TUNEFS_FLAG_RW
  | TUNEFS_FLAG_ONLINE
  | TUNEFS_FLAG_NOCLUSTER
  | TUNEFS_FLAG_ALLOCATION

datatype mount_flag =
    OCFS2_MF_MOUNTED
  | OCFS2_MF_READONLY
  | OCFS2_MF_SWAP
  | OCFS2_MF_OTHER nat

datatype incompat_feature =
    OCFS2_FEATURE_INCOMPAT_HEARTBEAT_DEV
  | OCFS2_FEATURE_INCOMPAT_RESIZE_INPROG
  | OCFS2_FEATURE_INCOMPAT_TUNEFS_INPROG
  | OCFS2_FEATURE_INCOMPAT_LOCAL_MOUNT
  | OCFS2_FEATURE_INCOMPAT_INLINE_DATA
  | OCFS2_FEATURE_INCOMPAT_OTHER nat

datatype ocfs2_open_flag =
    OCFS2_FLAG_HEARTBEAT_DEV_OK
  | OCFS2_FLAG_RW
  | OCFS2_FLAG_STRICT_COMPAT_CHECK
  | OCFS2_FLAG_RO

datatype open_mode = O_RDWR_O_EXCL | O_RDONLY

datatype system_inode = GLOBAL_BITMAP_SYSTEM_INODE | JOURNAL_SYSTEM_INODE

section \<open>On-disk structures read by the checks\<close>

text \<open>
  Only the fields that \<^verbatim>\<open>libtunefs.c\<close> reads are kept, with the widths the
  on-disk format gives them.  The two arrays the code indexes without a bounds check,
  \<^verbatim>\<open>bg_bitmap[]\<close> and \<^verbatim>\<open>cl_recs[]\<close>, are functions from the index to what the
  memory holds there.
\<close>

record ocfs2_group_desc =
  bg_size :: "16 word"
  bg_bits :: "16 word"
  bg_free_bits_count :: "16 word"
  bg_chain :: "16 word"
  bg_parent_dinode :: "64 word"
  bg_next_group :: "64 word"
  bg_bitmap :: "nat \<Rightarrow> 8 word"

record ocfs2_chain_rec =
  c_free :: "32 word"
  c_total :: "32 word"
  c_blkno :: "64 word"

record ocfs2_dinode =
  i_blkno :: "64 word"
  i_clusters :: "32 word"
  ij_dirty :: bool
  cl_next_free_rec :: "16 word"
  cl_recs :: "nat \<Rightarrow> ocfs2_chain_rec"

text \<open>
  \<open>ij_dirty\<close> is the value of \<^verbatim>\<open>id1.journal1.ij_flags & OCFS2_JOURNAL_DIRTY_FL\<close>;
  \<open>cl_next_free_rec\<close> and \<open>cl_recs\<close> are the fields of \<^verbatim>\<open>id2.i_chain\<close>.
\<close>

text \<open>
  What the structural I/O layer answers for one open handle while one check runs: the
  scratch-buffer allocation, the system-inode lookup and the two block reads.  Each
  either fails with a code or yields the decoded structure.
\<close>

record fs_view =
  v_malloc_block :: errcode_t
  v_lookup_system_inode :: "system_inode \<Rightarrow> nat \<Rightarrow> errcode + 64 word"
  v_read_inode :: "64 word \<Rightarrow> errcode + ocfs2_dinode"
  v_read_group_desc :: "64 word \<Rightarrow> errcode + ocfs2_group_desc"

section \<open>The in-memory handle, the process state and the outside world\<close>

text \<open>
  An \<^verbatim>\<open>ocfs2_filesys *\<close> is a handle number into \<open>fs_store\<close>; the null pointer is
  \<open>None\<close> where a function tests for it.  \<open>fs_dlm_ctxt\<close> and \<open>fs_private\<close> say
  whether the pointer of that name is non-null; the \<^verbatim>\<open>tunefs_private\<close> node a handle
  owns is identified with the handle, so \<open>fs_list\<close> lists handle numbers, head first.
\<close>

record ocfs2_filesys =
  fs_devname :: string
  s_feature_incompat :: "incompat_feature set"
  s_max_slots :: "16 word"
  fs_dlm_ctxt :: bool
  fs_private :: bool

datatype message =
    Msg_bad_parent "64 word" "64 word" "64 word"
  | Msg_bad_chain "64 word" "64 word" nat "16 word"
  | Msg_free_mismatch "64 word" "64 word" "16 word" "16 word"
  | Msg_over_capacity "64 word" "64 word" nat "16 word"
  | Msg_free_over_total "64 word" "64 word"
  | Msg_chain_total "64 word" "32 word" "32 word"
  | Msg_chain_free "64 word" "32 word" "32 word"
  | Msg_journal_dirty nat
  | Msg_io_error errcode
  | Msg_already_enabled
  | Msg_not_enabled
  | Msg_prompt string
  | Msg_noop
  | Msg_version
  | Msg_usage
  | Msg_error string

text \<open>
  Every call that leaves the program is recorded, in order, in \<open>trace\<close>.  The
  diagnostic calls (\<^verbatim>\<open>verbosef\<close>, \<^verbatim>\<open>errorf\<close>, \<^verbatim>\<open>tcom_err\<close>) are recorded as
  \<open>Ev_message\<close> with the data they format; whether the text reaches the terminal
  depends on the verbosity level and is not modelled.
\<close>

datatype event =
    Ev_open64 string open_mode
  | Ev_close int
  | Ev_check_if_mounted string
  | Ev_check_mount_point string
  | Ev_setenv string
  | Ev_unsetenv
  | Ev_o2cb_init
  | Ev_initialize_dlm nat
  | Ev_lock_down_cluster nat
  | Ev_release_cluster nat
  | Ev_shutdown_dlm nat
  | Ev_block_signals
  | Ev_unblock_signals
  | Ev_ocfs2_open string "ocfs2_open_flag set"
  | Ev_ocfs2_close nat
  | Ev_malloc
  | Ev_io_init_cache nat
  | Ev_lookup_system_inode nat system_inode nat
  | Ev_read_inode nat "64 word"
  | Ev_read_group_desc nat "64 word"
  | Ev_write_super nat
  | Ev_read_stdin
  | Ev_sigaction
  | Ev_getopt_long
  | Ev_run "nat option" "tunefs_flag set"
  | Ev_message message

type_synonym history = "event list"

text \<open>
  The static variables of \<^verbatim>\<open>libtunefs.c\<close>, the one environment variable it uses,
  the open handles and the trace.
\<close>

record world =
  fs_list :: "nat list"
  local_fd :: int
  local_fd_count :: "32 word"
  online_fd :: int
  online_fd_count :: "32 word"
  cluster_locked :: bool
  verbosity :: int
  interactive :: bool
  journal_clusters :: "32 word"
  segv_already :: bool
  progname :: string
  lock_env :: "string option"
  fs_store :: "nat \<Rightarrow> ocfs2_filesys"
  next_fs :: nat
  trace :: history

text \<open>
  The collaborators outside the sources at hand (the structural I/O library, the
  cluster lock manager, the C library).  Each answer may depend on everything that
  happened before, so it is a function of the trace at the moment of the call.
  A descriptor that \<^verbatim>\<open>open64\<close> returns is a natural number; a negative return is the
  \<open>errno\<close> it failed with.  The two lock-manager calls that change
  \<^verbatim>\<open>fs->fs_dlm_ctxt\<close> answer with the code and with whether the pointer is set
  afterwards.
\<close>

record platform =
  x_open64 :: "history \<Rightarrow> string \<Rightarrow> open_mode \<Rightarrow> errno + nat"
  x_check_if_mounted :: "history \<Rightarrow> string \<Rightarrow> errcode + mount_flag set"
  x_check_mount_point :: "history \<Rightarrow> string \<Rightarrow> errcode + (mount_flag set \<times> string)"
  x_setenv_fails :: "history \<Rightarrow> string \<Rightarrow> bool"
  x_unsetenv_fails :: "history \<Rightarrow> bool"
  x_o2cb_init :: "history \<Rightarrow> errcode_t"
  x_initialize_dlm :: "history \<Rightarrow> nat \<Rightarrow> errcode_t \<times> bool"
  x_lock_down_cluster :: "history \<Rightarrow> nat \<Rightarrow> errcode_t"
  x_release_cluster :: "history \<Rightarrow> nat \<Rightarrow> errcode_t"
  x_shutdown_dlm :: "history \<Rightarrow> nat \<Rightarrow> errcode_t \<times> bool"
  x_ocfs2_open :: "history \<Rightarrow> string \<Rightarrow> ocfs2_open_flag set \<Rightarrow> errcode + ocfs2_filesys"
  x_ocfs2_close :: "history \<Rightarrow> nat \<Rightarrow> errcode_t"
  x_malloc0 :: "history \<Rightarrow> errcode_t"
  x_view :: "history \<Rightarrow> nat \<Rightarrow> fs_view"
  x_write_super :: "history \<Rightarrow> nat \<Rightarrow> errcode_t"
  x_fgets :: "history \<Rightarrow> string option"
  x_sigaction_fails :: "history \<Rightarrow> bool"
  x_getopt_long :: "history \<Rightarrow> string list \<Rightarrow> (char \<times> char) list \<times> string list"
  x_errcode_value :: "errcode \<Rightarrow> int"
  x_PROGNAME :: string
  x_basename :: "string \<Rightarrow> string"

definition emit :: "event \<Rightarrow> world \<Rightarrow> world" where
  "emit e w = w\<lparr>trace := trace w @ [e]\<rparr>"

definition verbosef :: "message \<Rightarrow> world \<Rightarrow> world" where
  "verbosef m w = emit (Ev_message m) w"

definition TUNEFS_OCFS2_LOCK_ENV_LOCKED :: string where
  "TUNEFS_OCFS2_LOCK_ENV_LOCKED = ''locked''"

definition TUNEFS_OCFS2_LOCK_ENV_ONLINE :: string where
  "TUNEFS_OCFS2_LOCK_ENV_ONLINE = ''online''"

definition ocfs2_mount_local :: "ocfs2_filesys \<Rightarrow> bool" where
  "ocfs2_mount_local fs = (OCFS2_FEATURE_INCOMPAT_LOCAL_MOUNT \<in> s_feature_incompat fs)"

definition tunefs_block_signals :: "world \<Rightarrow> world" where
  "tunefs_block_signals w = emit Ev_block_signals w"

definition tunefs_unblock_signals :: "world \<Rightarrow> world" where
  "tunefs_unblock_signals w = emit Ev_unblock_signals w"

section \<open>Access coordinator\<close>

definition tunefs_set_lock_env :: "platform \<Rightarrow> string option \<Rightarrow> world \<Rightarrow> errcode_t \<times> world" where
  "tunefs_set_lock_env P status w =
     (case status of
        None \<Rightarrow>
          (if x_unsetenv_fails P (trace w)
           then (Some TUNEFS_ET_INTERNAL_FAILURE, emit Ev_unsetenv w)
           else (None, (emit Ev_unsetenv w)\<lparr>lock_env := None\<rparr>))
      | Some s \<Rightarrow>
          (if x_setenv_fails P (trace w) s
           then (Some TUNEFS_ET_INTERNAL_FAILURE, emit (Ev_setenv s) w)
           else (None, (emit (Ev_setenv s) w)\<lparr>lock_env := Some s\<rparr>)))"

definition tunefs_get_lock_env :: "platform \<Rightarrow> world \<Rightarrow> errcode_t \<times> world" where
  "tunefs_get_lock_env P w =
     (case lock_env w of
        None \<Rightarrow> (Some TUNEFS_ET_INVALID_STACK_NAME, w)
      | Some lockenv \<Rightarrow>
          (if lockenv = TUNEFS_OCFS2_LOCK_ENV_ONLINE
           then (Some TUNEFS_ET_PERFORM_ONLINE, w\<lparr>progname := x_PROGNAME P\<rparr>)
           else if lockenv = TUNEFS_OCFS2_LOCK_ENV_LOCKED
           then (None, w\<lparr>progname := x_PROGNAME P\<rparr>)
           else (Some TUNEFS_ET_INVALID_STACK_NAME, w)))"

definition tunefs_lock_local :: "platform \<Rightarrow> nat \<Rightarrow> tunefs_flag set \<Rightarrow> world \<Rightarrow> errcode_t \<times> world" where
  "tunefs_lock_local P fs flags w =
     (if local_fd_count w \<noteq> 0
      then (None, w\<lparr>local_fd_count := local_fd_count w + 1\<rparr>)
      else
        (let dev = fs_devname (fs_store w fs);
             w1 = emit (Ev_open64 dev O_RDWR_O_EXCL) w
         in case x_open64 P (trace w) dev O_RDWR_O_EXCL of
              Inl e \<Rightarrow>
                (if e = EBUSY
                 then
                   (let w2 = emit (Ev_check_if_mounted dev) w1
                    in case x_check_if_mounted P (trace w1) dev of
                         Inl err \<Rightarrow> (Some err, w2)
                       | Inr mount_flags \<Rightarrow>
                           (if OCFS2_MF_MOUNTED \<notin> mount_flags \<or>
                               OCFS2_MF_READONLY \<in> mount_flags \<or>
                               OCFS2_MF_SWAP \<in> mount_flags \<or>
                               TUNEFS_FLAG_ONLINE \<notin> flags
                            then (Some TUNEFS_ET_DEVICE_BUSY, w2)
                            else (Some TUNEFS_ET_PERFORM_ONLINE, w2)))
                 else if e = ENOENT
                 then (Some OCFS2_ET_NAMED_DEVICE_NOT_FOUND, w1)
                 else (Some OCFS2_ET_IO, w1))
            | Inr rc \<Rightarrow> (None, w1\<lparr>local_fd := int rc, local_fd_count := 1\<rparr>)))"

definition tunefs_unlock_local :: "world \<Rightarrow> world" where
  "tunefs_unlock_local w =
     (if local_fd_count w \<noteq> 0
      then
        (let w1 = w\<lparr>local_fd_count := local_fd_count w - 1\<rparr>
         in if local_fd_count w1 = 0
            then (emit (Ev_close (local_fd w1)) w1)\<lparr>local_fd := - 1\<rparr>
            else w1)
      else w)"

definition ocfs2_release_cluster :: "platform \<Rightarrow> nat \<Rightarrow> world \<Rightarrow> errcode_t \<times> world" where
  "ocfs2_release_cluster P fs w =
     (x_release_cluster P (trace w) fs, emit (Ev_release_cluster fs) w)"

definition ocfs2_lock_down_cluster :: "platform \<Rightarrow> nat \<Rightarrow> world \<Rightarrow> errcode_t \<times> world" where
  "ocfs2_lock_down_cluster P fs w =
     (x_lock_down_cluster P (trace w) fs, emit (Ev_lock_down_cluster fs) w)"

definition set_dlm_ctxt :: "nat \<Rightarrow> bool \<Rightarrow> world \<Rightarrow> world" where
  "set_dlm_ctxt fs b w =
     w\<lparr>fs_store := (fs_store w)(fs := (fs_store w fs)\<lparr>fs_dlm_ctxt := b\<rparr>)\<rparr>"

definition ocfs2_shutdown_dlm :: "platform \<Rightarrow> nat \<Rightarrow> world \<Rightarrow> errcode_t \<times> world" where
  "ocfs2_shutdown_dlm P fs w =
     (fst (x_shutdown_dlm P (trace w) fs),
      set_dlm_ctxt fs (snd (x_shutdown_dlm P (trace w) fs)) (emit (Ev_shutdown_dlm fs) w))"

definition ocfs2_initialize_dlm :: "platform \<Rightarrow> nat \<Rightarrow> world \<Rightarrow> errcode_t \<times> world" where
  "ocfs2_initialize_dlm P fs w =
     (fst (x_initialize_dlm P (trace w) fs),
      set_dlm_ctxt fs (snd (x_initialize_dlm P (trace w) fs)) (emit (Ev_initialize_dlm fs) w))"

definition o2cb_init :: "platform \<Rightarrow> world \<Rightarrow> errcode_t \<times> world" where
  "o2cb_init P w = (x_o2cb_init P (trace w), emit Ev_o2cb_init w)"

definition first_error :: "errcode_t \<Rightarrow> errcode_t \<Rightarrow> errcode_t" where
  "first_error err tmp = (if err = None then tmp else err)"

definition tunefs_unlock_cluster :: "platform \<Rightarrow> nat option \<Rightarrow> world \<Rightarrow> errcode_t \<times> world" where
  "tunefs_unlock_cluster P fsp w =
     (case fsp of
        None \<Rightarrow> (Some TUNEFS_ET_INTERNAL_FAILURE, w)
      | Some fs \<Rightarrow>
          (let w1 = (if ocfs2_mount_local (fs_store w fs) then tunefs_unlock_local w else w);
               r2 = (if cluster_locked w1 \<and> fs_dlm_ctxt (fs_store w1 fs)
                     then
                       (let r = ocfs2_release_cluster P fs (tunefs_block_signals w1)
                        in (fst r, (tunefs_unblock_signals (snd r))\<lparr>cluster_locked := False\<rparr>))
                     else (None, w1));
               r3 = (if fs_dlm_ctxt (fs_store (snd r2) fs)
                     then
                       (let r = ocfs2_shutdown_dlm P fs (snd r2)
                        in (first_error (fst r2) (fst r), snd r))
                     else r2);
               r4 = tunefs_set_lock_env P None (snd r3)
           in (first_error (fst r3) (fst r4), snd r4)))"

text \<open>
  The code from the label \<^verbatim>\<open>out_set\<close> of \<^verbatim>\<open>tunefs_lock_cluster\<close> to its return.
\<close>

definition lock_cluster_out_set :: "platform \<Rightarrow> nat \<Rightarrow> errcode_t \<Rightarrow> world \<Rightarrow> errcode_t \<times> world" where
  "lock_cluster_out_set P fs err w =
     (let r = (if err = None \<and> cluster_locked w
               then tunefs_set_lock_env P (Some TUNEFS_OCFS2_LOCK_ENV_LOCKED) w
               else if err = Some TUNEFS_ET_PERFORM_ONLINE
               then tunefs_set_lock_env P (Some TUNEFS_OCFS2_LOCK_ENV_ONLINE) w
               else tunefs_set_lock_env P None w)
      in if fst r \<noteq> None
         then (fst r, snd (tunefs_unlock_cluster P (Some fs) (snd r)))
         else (err, snd r))"

definition tunefs_lock_cluster :: "platform \<Rightarrow> nat \<Rightarrow> tunefs_flag set \<Rightarrow> world \<Rightarrow> errcode_t \<times> world" where
  "tunefs_lock_cluster P fs flags w =
     (if ocfs2_mount_local (fs_store w fs)
      then
        (let r = tunefs_lock_local P fs flags w
         in lock_cluster_out_set P fs (fst r) (snd r))
      else
        (let r1 = tunefs_get_lock_env P w
         in if fst r1 = None \<or>
               (TUNEFS_FLAG_ONLINE \<in> flags \<and> fst r1 = Some TUNEFS_ET_PERFORM_ONLINE)
            then r1
            else
              (let r2 = o2cb_init P (snd r1)
               in if fst r2 \<noteq> None
                  then r2
                  else
                    (let r3 = ocfs2_initialize_dlm P fs (snd r2)
                     in if TUNEFS_FLAG_NOCLUSTER \<in> flags \<and> fst r3 = None
                        then lock_cluster_out_set P fs (fst r3) (snd r3)
                        else if TUNEFS_FLAG_NOCLUSTER \<in> flags \<and>
                                fst r3 = Some O2CB_ET_INVALID_STACK_NAME
                        then lock_cluster_out_set P fs (Some TUNEFS_ET_INVALID_STACK_NAME) (snd r3)
                        else if fst r3 \<noteq> None
                        then r3
                        else
                          (let r4 = ocfs2_lock_down_cluster P fs (tunefs_block_signals (snd r3));
                               w4 = tunefs_unblock_signals (snd r4)
                           in if fst r4 = None
                              then lock_cluster_out_set P fs None (w4\<lparr>cluster_locked := True\<rparr>)
                              else if fst r4 = Some O2DLM_ET_TRYLOCK_FAILED \<and>
                                      TUNEFS_FLAG_ONLINE \<in> flags
                              then lock_cluster_out_set P fs (Some TUNEFS_ET_PERFORM_ONLINE) w4
                              else (fst r4, snd (ocfs2_shutdown_dlm P fs w4)))))))"


section \<open>Consistency validator\<close>

text \<open>
  Modelled from the spec: the bit primitives of \<^verbatim>\<open>ocfs2/bitops.h\<close>
  (\<^verbatim>\<open>ocfs2_test_bit\<close>, \<^verbatim>\<open>ocfs2_find_next_bit_set\<close>,
  \<^verbatim>\<open>ocfs2_find_next_bit_clear\<close>) are not among the sources.  The spec has the
  free-bit count recomputed "by scanning the bitmap for maximal runs of clear bits";
  accordingly \<open>find_next\<close> returns the first index at or after \<open>offset\<close> and below
  \<open>sz\<close> whose bit has the wanted value, and \<open>sz\<close> when there is none.  Bit
  \<open>nr\<close> is bit \<open>nr mod 8\<close> of byte \<open>nr div 8\<close>.
\<close>

definition ocfs2_test_bit :: "nat \<Rightarrow> (nat \<Rightarrow> 8 word) \<Rightarrow> bool" where
  "ocfs2_test_bit nr addr = bit (addr (nr div 8)) (nr mod 8)"

function ocfs2_find_next_bit_set :: "(nat \<Rightarrow> 8 word) \<Rightarrow> nat \<Rightarrow> nat \<Rightarrow> nat" where
  "ocfs2_find_next_bit_set addr sz offset =
     (if sz \<le> offset then sz
      else if ocfs2_test_bit offset addr then offset
      else ocfs2_find_next_bit_set addr sz (Suc offset))"
  by pat_completeness auto
termination
  by (relation "measure (\<lambda>(addr, sz, offset). sz - offset)") auto

function ocfs2_find_next_bit_clear :: "(nat \<Rightarrow> 8 word) \<Rightarrow> nat \<Rightarrow> nat \<Rightarrow> nat" where
  "ocfs2_find_next_bit_clear addr sz offset =
     (if sz \<le> offset then sz
      else if \<not> ocfs2_test_bit offset addr then offset
      else ocfs2_find_next_bit_clear addr sz (Suc offset))"
  by pat_completeness auto
termination
  by (relation "measure (\<lambda>(addr, sz, offset). sz - offset)") auto

declare ocfs2_find_next_bit_set.simps [simp del]
declare ocfs2_find_next_bit_clear.simps [simp del]

lemma find_next_bit_clear_ge:
  "offset \<le> sz \<Longrightarrow> offset \<le> ocfs2_find_next_bit_clear addr sz offset"
proof (induction addr sz offset rule: ocfs2_find_next_bit_clear.induct)
  case (1 addr sz offset)
  show ?case
  proof (cases "sz \<le> offset \<or> \<not> ocfs2_test_bit offset addr")
    case True
    then show ?thesis
      using "1.prems" by (subst ocfs2_find_next_bit_clear.simps) auto
  next
    case False
    then have "Suc offset \<le> ocfs2_find_next_bit_clear addr sz (Suc offset)"
      using "1.IH" by simp
    then show ?thesis
      using False by (subst ocfs2_find_next_bit_clear.simps) simp
  qed
qed

lemma find_next_bit_clear_is_clear:
  "ocfs2_find_next_bit_clear addr sz offset < sz \<Longrightarrow>
   \<not> ocfs2_test_bit (ocfs2_find_next_bit_clear addr sz offset) addr"
proof (induction addr sz offset rule: ocfs2_find_next_bit_clear.induct)
  case (1 addr sz offset)
  show ?case
  proof (cases "sz \<le> offset")
    case True
    then show ?thesis
      using "1.prems" by (subst (asm) ocfs2_find_next_bit_clear.simps) simp
  next
    case outer: False
    show ?thesis
    proof (cases "ocfs2_test_bit offset addr")
      case True
      then have eq: "ocfs2_find_next_bit_clear addr sz offset =
                     ocfs2_find_next_bit_clear addr sz (Suc offset)"
        using outer by (subst ocfs2_find_next_bit_clear.simps) simp
      then show ?thesis
        using "1.IH" "1.prems" outer True by simp
    next
      case False
      then have "ocfs2_find_next_bit_clear addr sz offset = offset"
        using outer by (subst ocfs2_find_next_bit_clear.simps) simp
      then show ?thesis
        using False by simp
    qed
  qed
qed

lemma find_next_bit_set_gt:
  "offset < sz \<Longrightarrow> \<not> ocfs2_test_bit offset addr \<Longrightarrow>
   offset < ocfs2_find_next_bit_set addr sz offset"
proof -
  have ge: "off \<le> sz \<Longrightarrow> off \<le> ocfs2_find_next_bit_set addr sz off" for off
  proof (induction addr sz off rule: ocfs2_find_next_bit_set.induct)
    case (1 addr sz offset)
    show ?case
    proof (cases "sz \<le> offset \<or> ocfs2_test_bit offset addr")
      case True
      then show ?thesis
        using "1.prems" by (subst ocfs2_find_next_bit_set.simps) auto
    next
      case False
      then have "Suc offset \<le> ocfs2_find_next_bit_set addr sz (Suc offset)"
        using "1.IH" by simp
      then show ?thesis
        using False by (subst ocfs2_find_next_bit_set.simps) simp
    qed
  qed
  assume a: "offset < sz" "\<not> ocfs2_test_bit offset addr"
  then have "ocfs2_find_next_bit_set addr sz offset =
             ocfs2_find_next_bit_set addr sz (Suc offset)"
    by (subst ocfs2_find_next_bit_set.simps) simp
  moreover have "Suc offset \<le> ocfs2_find_next_bit_set addr sz (Suc offset)"
    using a ge [of "Suc offset"] by simp
  ultimately show ?thesis by simp
qed

text \<open>
  The loop of \<^verbatim>\<open>tunefs_count_free_bits\<close>.  The C variables are \<^verbatim>\<open>int\<close>s that stay
  between 0 and \<^verbatim>\<open>gd->bg_bits\<close> (at most 65535), so they are natural numbers here;
  the caller stores the result in a \<^verbatim>\<open>uint16_t\<close>.
\<close>

function count_free_bits_loop :: "(nat \<Rightarrow> 8 word) \<Rightarrow> nat \<Rightarrow> nat \<Rightarrow> nat \<Rightarrow> nat" where
  "count_free_bits_loop bitmap nbits endp bits =
     (if endp < nbits
      then
        (if nbits \<le> ocfs2_find_next_bit_clear bitmap nbits endp
         then bits
         else count_free_bits_loop bitmap nbits
                (ocfs2_find_next_bit_set bitmap nbits (ocfs2_find_next_bit_clear bitmap nbits endp))
                (bits + (ocfs2_find_next_bit_set bitmap nbits (ocfs2_find_next_bit_clear bitmap nbits endp)
                         - ocfs2_find_next_bit_clear bitmap nbits endp)))
      else bits)"
  by pat_completeness auto
termination
proof (relation "measure (\<lambda>(bitmap, nbits, endp, bits). nbits - endp)")
  show "wf (measure (\<lambda>(bitmap, nbits, endp, bits). nbits - endp))" by simp
next
  fix bitmap :: "nat \<Rightarrow> 8 word" and nbits "endp" bits :: nat
  assume lt: "endp < nbits" and found: "\<not> nbits \<le> ocfs2_find_next_bit_clear bitmap nbits endp"
  let ?start = "ocfs2_find_next_bit_clear bitmap nbits endp"
  have "endp \<le> ?start"
    using lt by (simp add: find_next_bit_clear_ge)
  moreover have "?start < ocfs2_find_next_bit_set bitmap nbits ?start"
    using found by (simp add: find_next_bit_set_gt find_next_bit_clear_is_clear)
  ultimately show "((bitmap, nbits, ocfs2_find_next_bit_set bitmap nbits ?start,
                     bits + (ocfs2_find_next_bit_set bitmap nbits ?start - ?start)),
                    (bitmap, nbits, endp, bits))
                   \<in> measure (\<lambda>(bitmap, nbits, endp, bits). nbits - endp)"
    using lt by simp
qed

declare count_free_bits_loop.simps [simp del]

definition tunefs_count_free_bits :: "ocfs2_group_desc \<Rightarrow> nat" where
  "tunefs_count_free_bits gd = count_free_bits_loop (bg_bitmap gd) (unat (bg_bits gd)) 0 0"

text \<open>
  The five tests that the loop of \<^verbatim>\<open>tunefs_validate_chain_group\<close> makes on a
  descriptor it has just read from block \<open>blkno\<close>, in the order of the source, with
  the diagnostic of the first test that fails; \<open>None\<close> when all pass.  The \<^verbatim>\<open>int\<close>
  that \<^verbatim>\<open>tunefs_count_free_bits\<close> returns is stored in the \<^verbatim>\<open>uint16_t bits\<close>; the
  comparisons are made after the integer promotions, so none of them wraps.
\<close>

definition group_desc_fault ::
  "ocfs2_dinode \<Rightarrow> nat \<Rightarrow> 64 word \<Rightarrow> ocfs2_group_desc \<Rightarrow> message option"
where
  "group_desc_fault di chain blkno gd =
     (if bg_parent_dinode gd \<noteq> i_blkno di
      then Some (Msg_bad_parent (i_blkno di) blkno (bg_parent_dinode gd))
      else if unat (bg_chain gd) \<noteq> chain
      then Some (Msg_bad_chain (i_blkno di) blkno chain (bg_chain gd))
      else if (of_nat (tunefs_count_free_bits gd) :: 16 word) \<noteq> bg_free_bits_count gd
      then Some (Msg_free_mismatch (i_blkno di) blkno
                   (of_nat (tunefs_count_free_bits gd)) (bg_free_bits_count gd))
      else if unat (bg_size gd) * 8 < unat (bg_bits gd)
      then Some (Msg_over_capacity (i_blkno di) blkno (unat (bg_size gd) * 8) (bg_bits gd))
      else if bg_bits gd \<le> bg_free_bits_count gd
      then Some (Msg_free_over_total (i_blkno di) blkno)
      else None)"

text \<open>
  The \<^verbatim>\<open>while (blkno)\<close> loop of \<^verbatim>\<open>tunefs_validate_chain_group\<close>.  It follows
  \<^verbatim>\<open>bg_next_group\<close> from descriptor to descriptor and need not end (a chain may lead
  back into itself), so its result is an option: \<open>None\<close> when the loop never
  leaves.  It returns \<^verbatim>\<open>ret\<close>, the two running sums and the world.  The sums are
  \<^verbatim>\<open>uint32_t\<close> and wrap.
\<close>

partial_function (option) validate_chain_walk ::
  "fs_view \<Rightarrow> nat \<Rightarrow> ocfs2_dinode \<Rightarrow> nat \<Rightarrow> 64 word \<Rightarrow> 32 word \<Rightarrow> 32 word \<Rightarrow> world
     \<Rightarrow> (errcode_t \<times> 32 word \<times> 32 word \<times> world) option"
where
  "validate_chain_walk V fs di chain blkno total_bits free_bits w =
     (if blkno = 0 then Some (None, total_bits, free_bits, w)
      else
        (case v_read_group_desc V blkno of
           Inl ret \<Rightarrow>
             Some (Some ret, total_bits, free_bits,
                   verbosef (Msg_io_error ret) (emit (Ev_read_group_desc fs blkno) w))
         | Inr gd \<Rightarrow>
             (case group_desc_fault di chain blkno gd of
                Some m \<Rightarrow>
                  Some (Some OCFS2_ET_CORRUPT_CHAIN, total_bits, free_bits,
                        verbosef m (emit (Ev_read_group_desc fs blkno) w))
              | None \<Rightarrow>
                  validate_chain_walk V fs di chain (bg_next_group gd)
                    (total_bits + ucast (bg_bits gd))
                    (free_bits + ucast (bg_free_bits_count gd))
                    (emit (Ev_read_group_desc fs blkno) w))))"

definition tunefs_validate_chain_group ::
  "fs_view \<Rightarrow> nat \<Rightarrow> ocfs2_dinode \<Rightarrow> nat \<Rightarrow> world \<Rightarrow> (errcode_t \<times> world) option"
where
  "tunefs_validate_chain_group V fs di chain w =
     (case v_malloc_block V of
        Some ret \<Rightarrow> Some (Some ret, verbosef (Msg_io_error ret) (emit Ev_malloc w))
      | None \<Rightarrow>
          (case validate_chain_walk V fs di chain (c_blkno (cl_recs di chain)) 0 0
                  (emit Ev_malloc w) of
             None \<Rightarrow> None
           | Some (ret, total_bits, free_bits, w1) \<Rightarrow>
               (if ret \<noteq> None then Some (ret, w1)
                else if c_total (cl_recs di chain) \<noteq> total_bits
                then Some (Some OCFS2_ET_CORRUPT_CHAIN,
                           verbosef (Msg_chain_total (i_blkno di) total_bits
                                       (c_total (cl_recs di chain))) w1)
                else if c_free (cl_recs di chain) \<noteq> free_bits
                then Some (Some OCFS2_ET_CORRUPT_CHAIN,
                           verbosef (Msg_chain_free (i_blkno di) free_bits
                                       (c_free (cl_recs di chain))) w1)
                else Some (None, w1))))"

text \<open>
  The \<^verbatim>\<open>for\<close> loop of \<^verbatim>\<open>tunefs_global_bitmap_check\<close> over the chain records
  \<^verbatim>\<open>0 .. cl_next_free_rec - 1\<close>, from index \<open>i\<close> on.
\<close>

function bitmap_check_loop ::
  "fs_view \<Rightarrow> nat \<Rightarrow> ocfs2_dinode \<Rightarrow> nat \<Rightarrow> world \<Rightarrow> (errcode_t \<times> world) option"
where
  "bitmap_check_loop V fs di i w =
     (if i < unat (cl_next_free_rec di)
      then
        (case tunefs_validate_chain_group V fs di i w of
           None \<Rightarrow> None
         | Some (ret, w1) \<Rightarrow>
             (if ret \<noteq> None then Some (ret, w1)
              else bitmap_check_loop V fs di (Suc i) w1))
      else Some (None, w))"
  by pat_completeness auto
termination
  by (relation "measure (\<lambda>(V, fs, di, i, w). unat (cl_next_free_rec di) - i)") auto

declare bitmap_check_loop.simps [simp del]

definition tunefs_global_bitmap_check ::
  "fs_view \<Rightarrow> nat \<Rightarrow> world \<Rightarrow> (errcode_t \<times> world) option"
where
  "tunefs_global_bitmap_check V fs w =
     (case v_malloc_block V of
        Some ret \<Rightarrow> Some (Some ret, verbosef (Msg_io_error ret) (emit Ev_malloc w))
      | None \<Rightarrow>
          (case v_lookup_system_inode V GLOBAL_BITMAP_SYSTEM_INODE 0 of
             Inl ret \<Rightarrow>
               Some (Some ret,
                     verbosef (Msg_io_error ret)
                       (emit (Ev_lookup_system_inode fs GLOBAL_BITMAP_SYSTEM_INODE 0)
                          (emit Ev_malloc w)))
           | Inr bm_blkno \<Rightarrow>
               (case v_read_inode V bm_blkno of
                  Inl ret \<Rightarrow>
                    Some (Some ret,
                          verbosef (Msg_io_error ret)
                            (emit (Ev_read_inode fs bm_blkno)
                               (emit (Ev_lookup_system_inode fs GLOBAL_BITMAP_SYSTEM_INODE 0)
                                  (emit Ev_malloc w))))
                | Inr di \<Rightarrow>
                    bitmap_check_loop V fs di 0
                      (emit (Ev_read_inode fs bm_blkno)
                         (emit (Ev_lookup_system_inode fs GLOBAL_BITMAP_SYSTEM_INODE 0)
                            (emit Ev_malloc w))))))"

text \<open>
  The \<^verbatim>\<open>for\<close> loop of \<^verbatim>\<open>tunefs_journal_check\<close> over the slots, from slot \<open>i\<close>
  on.  \<^verbatim>\<open>journal_clusters\<close> is the static variable of the file.
\<close>

function journal_check_loop ::
  "fs_view \<Rightarrow> nat \<Rightarrow> nat \<Rightarrow> nat \<Rightarrow> world \<Rightarrow> errcode_t \<times> world"
where
  "journal_check_loop V fs max_slots i w =
     (if i < max_slots
      then
        (case v_lookup_system_inode V JOURNAL_SYSTEM_INODE i of
           Inl ret \<Rightarrow>
             (Some ret,
              verbosef (Msg_io_error ret) (emit (Ev_lookup_system_inode fs JOURNAL_SYSTEM_INODE i) w))
         | Inr blkno \<Rightarrow>
             (case v_read_inode V blkno of
                Inl ret \<Rightarrow>
                  (Some ret,
                   verbosef (Msg_io_error ret)
                     (emit (Ev_read_inode fs blkno)
                        (emit (Ev_lookup_system_inode fs JOURNAL_SYSTEM_INODE i) w)))
              | Inr di \<Rightarrow>
                  (let w1 = emit (Ev_read_inode fs blkno)
                              (emit (Ev_lookup_system_inode fs JOURNAL_SYSTEM_INODE i) w);
                       w2 = (if journal_clusters w1 < i_clusters di
                             then w1\<lparr>journal_clusters := i_clusters di\<rparr> else w1)
                   in if ij_dirty di
                      then (Some TUNEFS_ET_JOURNAL_DIRTY, verbosef (Msg_journal_dirty i) w2)
                      else journal_check_loop V fs max_slots (Suc i) w2)))
      else (None, w))"
  by pat_completeness auto
termination
  by (relation "measure (\<lambda>(V, fs, max_slots, i, w). max_slots - i)") auto

declare journal_check_loop.simps [simp del]

definition tunefs_journal_check :: "fs_view \<Rightarrow> nat \<Rightarrow> world \<Rightarrow> errcode_t \<times> world" where
  "tunefs_journal_check V fs w =
     (case v_malloc_block V of
        Some ret \<Rightarrow> (Some ret, verbosef (Msg_io_error ret) (emit Ev_malloc w))
      | None \<Rightarrow>
          journal_check_loop V fs (unat (s_max_slots (fs_store w fs))) 0 (emit Ev_malloc w))"

section \<open>Online gateway descriptor\<close>

definition tunefs_open_online_descriptor :: "platform \<Rightarrow> nat \<Rightarrow> world \<Rightarrow> errcode_t \<times> world" where
  "tunefs_open_online_descriptor P fs w =
     (if online_fd_count w \<noteq> 0
      then (None, w\<lparr>online_fd_count := online_fd_count w + 1\<rparr>)
      else
        (let dev = fs_devname (fs_store w fs);
             w1 = emit (Ev_check_mount_point dev) w
         in case x_check_mount_point P (trace w) dev of
              Inl ret \<Rightarrow> (Some ret, w1)
            | Inr (flags, mnt_dir) \<Rightarrow>
                (if OCFS2_MF_MOUNTED \<notin> flags \<or> OCFS2_MF_READONLY \<in> flags \<or>
                    OCFS2_MF_SWAP \<in> flags
                 then (Some TUNEFS_ET_NOT_MOUNTED, w1)
                 else
                   (case x_open64 P (trace w1) mnt_dir O_RDONLY of
                      Inl e \<Rightarrow>
                        (if e = EBUSY then (Some TUNEFS_ET_DEVICE_BUSY, emit (Ev_open64 mnt_dir O_RDONLY) w1)
                         else if e = ENOENT
                         then (Some TUNEFS_ET_NOT_MOUNTED, emit (Ev_open64 mnt_dir O_RDONLY) w1)
                         else (Some OCFS2_ET_IO, emit (Ev_open64 mnt_dir O_RDONLY) w1))
                    | Inr rc \<Rightarrow>
                        (None, (emit (Ev_open64 mnt_dir O_RDONLY) w1)
                                 \<lparr>online_fd := int rc, online_fd_count := 1\<rparr>)))))"

definition tunefs_close_online_descriptor :: "world \<Rightarrow> world" where
  "tunefs_close_online_descriptor w =
     (if online_fd_count w \<noteq> 0
      then
        (let w1 = w\<lparr>online_fd_count := online_fd_count w - 1\<rparr>
         in if online_fd_count w1 = 0
            then (emit (Ev_close (online_fd w1)) w1)\<lparr>online_fd := - 1\<rparr>
            else w1)
      else w)"

section \<open>Handle registry, open and close\<close>

definition set_fs_private :: "nat \<Rightarrow> bool \<Rightarrow> world \<Rightarrow> world" where
  "set_fs_private fs b w =
     w\<lparr>fs_store := (fs_store w)(fs := (fs_store w fs)\<lparr>fs_private := b\<rparr>)\<rparr>"

text \<open>\<^verbatim>\<open>list_add\<close> puts the new node right behind the list head.\<close>

definition tunefs_add_fs :: "platform \<Rightarrow> nat \<Rightarrow> world \<Rightarrow> errcode_t \<times> world" where
  "tunefs_add_fs P fs w =
     (case x_malloc0 P (trace w) of
        Some err \<Rightarrow> (Some err, emit Ev_malloc w)
      | None \<Rightarrow> (None, (set_fs_private fs True (emit Ev_malloc w))\<lparr>fs_list := fs # fs_list w\<rparr>))"

definition tunefs_remove_fs :: "nat \<Rightarrow> world \<Rightarrow> world" where
  "tunefs_remove_fs fs w =
     (if fs_private (fs_store w fs)
      then (set_fs_private fs False w)\<lparr>fs_list := remove1 fs (fs_list w)\<rparr>
      else w)"

definition ocfs2_close :: "platform \<Rightarrow> nat \<Rightarrow> world \<Rightarrow> errcode_t \<times> world" where
  "ocfs2_close P fs w = (x_ocfs2_close P (trace w) fs, emit (Ev_ocfs2_close fs) w)"

definition tunefs_close :: "platform \<Rightarrow> nat option \<Rightarrow> world \<Rightarrow> errcode_t \<times> world" where
  "tunefs_close P fsp w =
     (case fsp of
        None \<Rightarrow> (None, w)
      | Some fs \<Rightarrow>
          (let w1 = tunefs_close_online_descriptor (tunefs_remove_fs fs w);
               r = tunefs_unlock_cluster P (Some fs) w1;
               r' = ocfs2_close P fs (snd r)
           in (first_error (fst r) (fst r'), snd r')))"

text \<open>
  An error is fatal for \<^verbatim>\<open>tunefs_open\<close> and \<^verbatim>\<open>tunefs_main\<close> when it is neither
  of the two reclassifications; this is the test the source writes out three times.
\<close>

definition fatal :: "errcode_t \<Rightarrow> bool" where
  "fatal err = (err \<noteq> None \<and> err \<noteq> Some TUNEFS_ET_INVALID_STACK_NAME \<and>
                err \<noteq> Some TUNEFS_ET_PERFORM_ONLINE)"

text \<open>
  The code from the label \<^verbatim>\<open>out\<close> of \<^verbatim>\<open>tunefs_open\<close>.  The handle returned is
  what \<^verbatim>\<open>*ret_fs\<close> is set to; on a fatal error it is not assigned, which is
  \<open>None\<close>.
\<close>

definition tunefs_open_out ::
  "platform \<Rightarrow> nat option \<Rightarrow> errcode_t \<Rightarrow> world \<Rightarrow> errcode_t \<times> nat option \<times> world"
where
  "tunefs_open_out P fsp err w =
     (if fatal err
      then
        (case fsp of
           None \<Rightarrow> (err, None, w)
         | Some fs \<Rightarrow> (err, None, snd (ocfs2_close P fs (tunefs_remove_fs fs w))))
      else (err, fsp, w))"

text \<open>
  The part of \<^verbatim>\<open>tunefs_open\<close> after \<^verbatim>\<open>tunefs_lock_cluster\<close> has returned \<open>err\<close>
  without a fatal error.
\<close>

definition tunefs_open_checks ::
  "platform \<Rightarrow> nat \<Rightarrow> tunefs_flag set \<Rightarrow> errcode_t \<Rightarrow> world
     \<Rightarrow> (errcode_t \<times> nat option \<times> world) option"
where
  "tunefs_open_checks P fs flags err w =
     (let w1 = emit (Ev_io_init_cache fs) w
      in if err \<noteq> Some TUNEFS_ET_PERFORM_ONLINE
         then
           (let j = tunefs_journal_check (x_view P (trace w1) fs) fs w1
            in case (if fst j = None \<and> TUNEFS_FLAG_ALLOCATION \<in> flags
                     then tunefs_global_bitmap_check (x_view P (trace (snd j)) fs) fs (snd j)
                     else Some j) of
                 None \<Rightarrow> None
               | Some (tmp, w2) \<Rightarrow>
                   (if tmp \<noteq> None
                    then Some (tunefs_open_out P (Some fs) tmp
                                 (snd (tunefs_unlock_cluster P (Some fs) w2)))
                    else Some (tunefs_open_out P (Some fs) err w2)))
         else
           (let r = tunefs_open_online_descriptor P fs w1
            in if fst r \<noteq> None
               then Some (tunefs_open_out P (Some fs) (fst r)
                            (snd (tunefs_unlock_cluster P (Some fs) (snd r))))
               else Some (tunefs_open_out P (Some fs) err (snd r))))"

definition tunefs_open ::
  "platform \<Rightarrow> string \<Rightarrow> tunefs_flag set \<Rightarrow> world \<Rightarrow> (errcode_t \<times> nat option \<times> world) option"
where
  "tunefs_open P device flags w =
     (let rw = (TUNEFS_FLAG_RW \<in> flags);
          open_flags = (if rw
                        then {OCFS2_FLAG_HEARTBEAT_DEV_OK, OCFS2_FLAG_RW,
                              OCFS2_FLAG_STRICT_COMPAT_CHECK}
                        else {OCFS2_FLAG_HEARTBEAT_DEV_OK, OCFS2_FLAG_RO});
          w1 = emit (Ev_ocfs2_open device open_flags) w
      in case x_ocfs2_open P (trace w) device open_flags of
           Inl err \<Rightarrow> Some (tunefs_open_out P None (Some err) w1)
         | Inr new_fs \<Rightarrow>
             (let fs = next_fs w1;
                  w2 = w1\<lparr>fs_store := (fs_store w1)(fs := new_fs), next_fs := Suc fs\<rparr>;
                  a = tunefs_add_fs P fs w2
              in if fst a \<noteq> None then Some (tunefs_open_out P (Some fs) (fst a) (snd a))
                 else if \<not> rw then Some (tunefs_open_out P (Some fs) None (snd a))
                 else if OCFS2_FEATURE_INCOMPAT_HEARTBEAT_DEV \<in> s_feature_incompat new_fs
                 then Some (tunefs_open_out P (Some fs) (Some TUNEFS_ET_HEARTBEAT_DEV) (snd a))
                 else if OCFS2_FEATURE_INCOMPAT_RESIZE_INPROG \<in> s_feature_incompat new_fs
                 then Some (tunefs_open_out P (Some fs) (Some TUNEFS_ET_RESIZE_IN_PROGRESS) (snd a))
                 else if OCFS2_FEATURE_INCOMPAT_TUNEFS_INPROG \<in> s_feature_incompat new_fs
                 then Some (tunefs_open_out P (Some fs) (Some TUNEFS_ET_TUNEFS_IN_PROGRESS) (snd a))
                 else
                   (let l = tunefs_lock_cluster P fs flags (snd a)
                    in if fatal (fst l) then Some (tunefs_open_out P (Some fs) (fst l) (snd l))
                       else tunefs_open_checks P fs flags (fst l) (snd l))))"

text \<open>
  \<^verbatim>\<open>list_for_each_safe\<close> reads the successor of a node before the body runs, and the
  body (\<^verbatim>\<open>tunefs_close\<close>) unlinks that node only; so the loop visits the nodes the
  list holds when it starts, from the head on.
\<close>

fun close_each :: "platform \<Rightarrow> nat list \<Rightarrow> world \<Rightarrow> world" where
  "close_each P [] w = w"
| "close_each P (fs # rest) w = close_each P rest (snd (tunefs_close P (Some fs) w))"

definition tunefs_close_all :: "platform \<Rightarrow> world \<Rightarrow> world" where
  "tunefs_close_all P w = close_each P (fs_list w) w"

datatype signal = SIGQUIT | SIGTERM | SIGINT | SIGHUP | SIGSEGV | SIG_OTHER nat

text \<open>How a call ends: it returns a value, or the process ends in \<^verbatim>\<open>exit\<close> or \<^verbatim>\<open>abort\<close>.\<close>

datatype 'a outcome = Returns 'a | Exits int | Aborts

definition errorf :: "string \<Rightarrow> world \<Rightarrow> world" where
  "errorf text w = verbosef (Msg_error text) w"

definition handle_signal :: "platform \<Rightarrow> signal \<Rightarrow> world \<Rightarrow> unit outcome \<times> world" where
  "handle_signal P caught_sig w =
     (let (exitp, abortp, w1) =
            (case caught_sig of
               SIGQUIT \<Rightarrow> (True, True, errorf ''Caught signal, exiting'' w)
             | SIGTERM \<Rightarrow> (True, False, errorf ''Caught signal, exiting'' w)
             | SIGINT \<Rightarrow> (True, False, errorf ''Caught signal, exiting'' w)
             | SIGHUP \<Rightarrow> (True, False, errorf ''Caught signal, exiting'' w)
             | SIGSEGV \<Rightarrow>
                 (if segv_already w
                  then (True, True,
                        errorf ''Segmentation fault loop detected''
                          (errorf ''Segmentation fault, exiting'' w))
                  else (True, False,
                        (errorf ''Segmentation fault, exiting'' w)\<lparr>segv_already := True\<rparr>))
             | SIG_OTHER n \<Rightarrow> (False, False, errorf ''Caught signal, ignoring'' w))
      in if \<not> exitp then (Returns (), w1)
         else if abortp then (Aborts, w1)
         else (Exits 1, tunefs_close_all P w1))"

section \<open>Operation runner\<close>

text \<open>
  \<^verbatim>\<open>tunefs_interact\<close>: without \<^verbatim>\<open>-i\<close> every question counts as answered yes.
  Otherwise the first character of the line read decides; \<^verbatim>\<open>tolower(*s)\<close> discards
  its result, so only a lower-case \<^verbatim>\<open>y\<close> is a yes.
\<close>

definition tunefs_interact :: "platform \<Rightarrow> string \<Rightarrow> world \<Rightarrow> bool \<times> world" where
  "tunefs_interact P question w =
     (if \<not> interactive w then (True, w)
      else
        (let w1 = verbosef (Msg_prompt question) w
         in (case x_fgets P (trace w1) of
               None \<Rightarrow> False
             | Some [] \<Rightarrow> False
             | Some (c # cs) \<Rightarrow> c = CHR ''y'',
             emit Ev_read_stdin w1)))"

definition tunefs_verbose :: "world \<Rightarrow> world" where
  "tunefs_verbose w = w\<lparr>verbosity := verbosity w + 1\<rparr>"

definition tunefs_quiet :: "world \<Rightarrow> world" where
  "tunefs_quiet w = w\<lparr>verbosity := verbosity w - 1\<rparr>"

definition setup_signals :: "platform \<Rightarrow> world \<Rightarrow> bool \<times> world" where
  "setup_signals P w = (x_sigaction_fails P (trace w), emit Ev_sigaction w)"

record core_options =
  print_usage :: bool
  print_version :: bool
  opt_error :: string

text \<open>
  The \<^verbatim>\<open>while\<close> loop of \<^verbatim>\<open>tunefs_parse_core_options\<close> over the answers of
  \<^verbatim>\<open>getopt_long\<close>, each the character returned and the value of \<^verbatim>\<open>optopt\<close>.
\<close>

fun core_options_loop ::
  "(char \<times> char) list \<Rightarrow> core_options \<Rightarrow> world \<Rightarrow> core_options \<times> world"
where
  "core_options_loop [] st w = (st, w)"
| "core_options_loop ((c, optopt) # rest) st w =
     (let r = (if c = CHR ''h'' then (st\<lparr>print_usage := True\<rparr>, w)
               else if c = CHR ''V'' then (st\<lparr>print_version := True\<rparr>, w)
               else if c = CHR ''v'' then (st, tunefs_verbose w)
               else if c = CHR ''q'' then (st, tunefs_quiet w)
               else if c = CHR ''i'' then (st, w\<lparr>interactive := True\<rparr>)
               else if c = CHR ''?''
               then (st\<lparr>print_usage := True, opt_error := ''Invalid option: -'' @ [optopt]\<rparr>, w)
               else if c = CHR '':''
               then (st\<lparr>print_usage := True,
                         opt_error := ''Option requires an argument: -'' @ [optopt]\<rparr>, w)
               else (st\<lparr>opt_error := ''Should not get here '' @ [optopt, c]\<rparr>, w))
      in if opt_error (fst r) \<noteq> [] then r else core_options_loop rest (fst r) (snd r))"

text \<open>
  \<^verbatim>\<open>tunefs_init\<close> with \<^verbatim>\<open>tunefs_parse_core_options\<close>: either the process exits
  (\<open>Inl\<close> the status) or the arguments that follow the core options come back
  (\<^verbatim>\<open>argv[1]\<close>, \<^verbatim>\<open>argv[2]\<close>, ...).  The usage string and the \<^verbatim>\<open>com_err\<close> hook feed
  diagnostic text only and are left out.
\<close>

definition tunefs_parse_core_options ::
  "platform \<Rightarrow> string \<Rightarrow> string list \<Rightarrow> world \<Rightarrow> (int + string list) \<times> world"
where
  "tunefs_parse_core_options P argv0 args w =
     (let w0 = w\<lparr>progname := x_basename P argv0\<rparr>;
          g = x_getopt_long P (trace w0) (argv0 # args);
          r = core_options_loop (fst g) \<lparr>print_usage = False, print_version = False, opt_error = []\<rparr>
                (emit Ev_getopt_long w0);
          st = fst r;
          w1 = (if opt_error st \<noteq> [] then errorf (opt_error st) (snd r) else snd r);
          w2 = (if print_version st then verbosef Msg_version w1 else w1);
          w3 = (if print_usage st then verbosef Msg_usage w2 else w2)
      in if print_usage st \<or> print_version st then (Inl 0, w3)
         else if opt_error st \<noteq> [] then (Inl 1, w3)
         else (Inr (snd g), w3))"

definition tunefs_init ::
  "platform \<Rightarrow> string \<Rightarrow> string list \<Rightarrow> world \<Rightarrow> (int + string list) \<times> world"
where
  "tunefs_init P argv0 args w =
     (let s = setup_signals P w
      in if fst s then (Inl 1, errorf ''signals failed'' (snd s))
         else tunefs_parse_core_options P argv0 args (snd s))"

definition tunefs_usage :: "world \<Rightarrow> world" where
  "tunefs_usage w = verbosef Msg_usage w"

definition tcom_err :: "errcode \<Rightarrow> world \<Rightarrow> world" where
  "tcom_err code w = verbosef (Msg_io_error code) w"

definition tcom_err_t :: "errcode_t \<Rightarrow> world \<Rightarrow> world" where
  "tcom_err_t err w = (case err of None \<Rightarrow> w | Some code \<Rightarrow> tcom_err code w)"

text \<open>
  A \<^verbatim>\<open>struct tunefs_operation\<close>.  The user data is of any type \<open>'u\<close>; a body gets
  the handle (possibly null), the flags and the user data, may change the world, and
  returns an \<^verbatim>\<open>int\<close>, or does not return (\<open>None\<close>).
\<close>

record 'u tunefs_operation =
  to_name :: string
  to_open_flags :: "tunefs_flag set"
  to_parse_option :: "(string option \<Rightarrow> 'u \<Rightarrow> world \<Rightarrow> int \<times> 'u \<times> world) option"
  to_run :: "nat option \<Rightarrow> tunefs_flag set \<Rightarrow> 'u \<Rightarrow> world \<Rightarrow> (int \<times> world) option"
  to_user_data :: 'u

text \<open>\<^verbatim>\<open>tunefs_main\<close> from the label \<^verbatim>\<open>out_close_master\<close>.\<close>

definition main_close_master ::
  "platform \<Rightarrow> nat option \<Rightarrow> int \<Rightarrow> world \<Rightarrow> int \<times> world"
where
  "main_close_master P master_fs rc w =
     (let c = tunefs_close P master_fs w
      in (if fst c \<noteq> None then 1 else rc, tcom_err_t (fst c) (snd c)))"

text \<open>\<^verbatim>\<open>tunefs_main\<close> from the second \<^verbatim>\<open>tunefs_open\<close> on.\<close>

definition main_operation ::
  "platform \<Rightarrow> 'u tunefs_operation \<Rightarrow> 'u \<Rightarrow> string \<Rightarrow> tunefs_flag set \<Rightarrow> nat option \<Rightarrow> int
     \<Rightarrow> world \<Rightarrow> (int \<times> world) option"
where
  "main_operation P op user_data device flags master_fs rc w =
     (case tunefs_open P device flags w of
        None \<Rightarrow> None
      | Some (err, op_fs, w1) \<Rightarrow>
          (if fatal err
           then Some (main_close_master P master_fs rc (tcom_err_t err w1))
           else
             (case to_run op op_fs flags user_data (emit (Ev_run op_fs flags) w1) of
                None \<Rightarrow> None
              | Some (rc1, w2) \<Rightarrow>
                  (let c = tunefs_close P op_fs w2
                   in Some (main_close_master P master_fs
                              (if fst c \<noteq> None then 1 else rc1)
                              (tcom_err_t (fst c) (snd c)))))))"

text \<open>
  The flags \<^verbatim>\<open>tunefs_main\<close> opens the operation handle with, from the flags of the
  operation and the result of the first \<^verbatim>\<open>tunefs_open\<close>.
\<close>

definition main_flags :: "tunefs_flag set \<Rightarrow> errcode_t \<Rightarrow> tunefs_flag set" where
  "main_flags open_flags err =
     (if err = Some TUNEFS_ET_PERFORM_ONLINE
      then insert TUNEFS_FLAG_ONLINE (open_flags - {TUNEFS_FLAG_ONLINE, TUNEFS_FLAG_NOCLUSTER})
      else if err = Some TUNEFS_ET_INVALID_STACK_NAME
      then insert TUNEFS_FLAG_NOCLUSTER (open_flags - {TUNEFS_FLAG_ONLINE, TUNEFS_FLAG_NOCLUSTER})
      else open_flags - {TUNEFS_FLAG_ONLINE, TUNEFS_FLAG_NOCLUSTER})"

text \<open>\<^verbatim>\<open>tunefs_main\<close> from the first \<^verbatim>\<open>tunefs_open\<close> on.\<close>

definition main_master ::
  "platform \<Rightarrow> 'u tunefs_operation \<Rightarrow> 'u \<Rightarrow> string \<Rightarrow> int \<Rightarrow> world \<Rightarrow> (int \<times> world) option"
where
  "main_master P op user_data device rc w =
     (case tunefs_open P device (to_open_flags op) w of
        None \<Rightarrow> None
      | Some (err, master_fs, w1) \<Rightarrow>
          (if fatal err
           then Some (rc, tcom_err_t err w1)
           else main_operation P op user_data device (main_flags (to_open_flags op) err)
                  master_fs rc w1))"

text \<open>
  The argument checks of \<^verbatim>\<open>tunefs_main\<close> between \<^verbatim>\<open>tunefs_init\<close> and the first
  \<^verbatim>\<open>tunefs_open\<close>, over \<^verbatim>\<open>argv[1]\<close>, \<^verbatim>\<open>argv[2]\<close>, ...: either the function
  returns at once (\<open>Inl\<close> the status), or it goes on with the user data, the value of
  \<^verbatim>\<open>rc\<close> (initially 1, overwritten by the option parser) and the world.
\<close>

definition main_arguments ::
  "'u tunefs_operation \<Rightarrow> string list \<Rightarrow> world \<Rightarrow> (int \<times> world) + ('u \<times> int \<times> world)"
where
  "main_arguments op argv w0 =
     (if length argv < 1
      then Inl (1, tunefs_usage (errorf ''No device specified'' w0))
      else
        (case to_parse_option op of
           Some parse \<Rightarrow>
             (if 2 < length argv
              then Inl (1, tunefs_usage (errorf ''Too many arguments'' w0))
              else
                (let p = parse (if length argv = 2 then Some (argv ! 1) else None)
                           (to_user_data op) w0
                 in if fst p \<noteq> 0
                    then Inl (fst p, tunefs_usage (snd (snd p)))
                    else Inr (fst (snd p), fst p, snd (snd p))))
         | None \<Rightarrow>
             (if 1 < length argv
              then Inl (1, tunefs_usage (errorf ''Too many arguments'' w0))
              else Inr (to_user_data op, 1, w0))))"

definition tunefs_main ::
  "platform \<Rightarrow> string \<Rightarrow> string list \<Rightarrow> 'u tunefs_operation \<Rightarrow> world
     \<Rightarrow> (int outcome \<times> world) option"
where
  "tunefs_main P argv0 args op w =
     (case tunefs_init P argv0 args w of
        (Inl status, w0) \<Rightarrow> Some (Exits status, w0)
      | (Inr argv, w0) \<Rightarrow>
          (case main_arguments op argv w0 of
             Inl (rc, w1) \<Rightarrow> Some (Returns rc, w1)
           | Inr (user_data, rc, w1) \<Rightarrow>
               map_option (\<lambda>(rc', w'). (Returns rc', w'))
                 (main_master P op user_data (argv ! 0) rc w1)))"

section \<open>Feature operations\<close>

datatype tunefs_feature_action =
  FEATURE_NOOP | FEATURE_ENABLE | FEATURE_DISABLE | FEATURE_OTHER int

record tunefs_feature =
  tf_name :: string
  tf_open_flags :: "tunefs_flag set"
  tf_action :: tunefs_feature_action
  tf_enable :: "nat option \<Rightarrow> tunefs_flag set \<Rightarrow> world \<Rightarrow> (int \<times> world) option"
  tf_disable :: "nat option \<Rightarrow> tunefs_flag set \<Rightarrow> world \<Rightarrow> (int \<times> world) option"

definition single_feature_parse_option ::
  "string option \<Rightarrow> tunefs_feature \<Rightarrow> world \<Rightarrow> int \<times> tunefs_feature \<times> world"
where
  "single_feature_parse_option arg feat w =
     (case arg of
        None \<Rightarrow> (1, feat, errorf ''No action specified'' w)
      | Some a \<Rightarrow>
          (if a = ''enable'' then (0, feat\<lparr>tf_action := FEATURE_ENABLE\<rparr>, w)
           else if a = ''disable'' then (0, feat\<lparr>tf_action := FEATURE_DISABLE\<rparr>, w)
           else (1, feat, errorf ''Invalid action'' w)))"

definition single_feature_run ::
  "nat option \<Rightarrow> tunefs_flag set \<Rightarrow> tunefs_feature \<Rightarrow> world \<Rightarrow> (int \<times> world) option"
where
  "single_feature_run fs flags feat w =
     (case tf_action feat of
        FEATURE_ENABLE \<Rightarrow> tf_enable feat fs flags w
      | FEATURE_DISABLE \<Rightarrow> tf_disable feat fs flags w
      | FEATURE_NOOP \<Rightarrow> Some (0, verbosef Msg_noop w)
      | FEATURE_OTHER n \<Rightarrow> Some (1, errorf ''Unknown action'' w))"

definition single_feature_op :: "tunefs_feature \<Rightarrow> tunefs_feature tunefs_operation" where
  "single_feature_op feat =
     \<lparr>to_name = ''single_feature'', to_open_flags = tf_open_flags feat,
      to_parse_option = Some single_feature_parse_option,
      to_run = single_feature_run, to_user_data = feat\<rparr>"

definition tunefs_feature_main ::
  "platform \<Rightarrow> string \<Rightarrow> string list \<Rightarrow> tunefs_feature \<Rightarrow> world
     \<Rightarrow> (int outcome \<times> world) option"
where
  "tunefs_feature_main P argv0 args feat w = tunefs_main P argv0 args (single_feature_op feat) w"

text \<open>
  \<^verbatim>\<open>feature_inline_data.c\<close>.  \<^verbatim>\<open>ocfs2_support_inline_data\<close> and the macro
  \<^verbatim>\<open>OCFS2_SET_INCOMPAT_FEATURE\<close> test and set the feature bit in
  \<^verbatim>\<open>s_feature_incompat\<close>.  The \<^verbatim>\<open>int\<close> the body returns is its \<^verbatim>\<open>errcode_t\<close>; the
  numbers of the codes come from the platform.  A null handle is dereferenced at once:
  the body does not return.
\<close>

definition ocfs2_support_inline_data :: "ocfs2_filesys \<Rightarrow> bool" where
  "ocfs2_support_inline_data super =
     (OCFS2_FEATURE_INCOMPAT_INLINE_DATA \<in> s_feature_incompat super)"

definition ocfs2_write_super :: "platform \<Rightarrow> nat \<Rightarrow> world \<Rightarrow> errcode_t \<times> world" where
  "ocfs2_write_super P fs w = (x_write_super P (trace w) fs, emit (Ev_write_super fs) w)"

definition errcode_int :: "platform \<Rightarrow> errcode_t \<Rightarrow> int" where
  "errcode_int P ret = (case ret of None \<Rightarrow> 0 | Some code \<Rightarrow> x_errcode_value P code)"

definition set_incompat_feature :: "nat \<Rightarrow> incompat_feature \<Rightarrow> world \<Rightarrow> world" where
  "set_incompat_feature fs f w =
     w\<lparr>fs_store := (fs_store w)
          (fs := (fs_store w fs)\<lparr>s_feature_incompat := insert f (s_feature_incompat (fs_store w fs))\<rparr>)\<rparr>"

definition enable_inline_data ::
  "platform \<Rightarrow> nat option \<Rightarrow> tunefs_flag set \<Rightarrow> world \<Rightarrow> (int \<times> world) option"
where
  "enable_inline_data P fsp flags w =
     (case fsp of
        None \<Rightarrow> None
      | Some fs \<Rightarrow>
          (if ocfs2_support_inline_data (fs_store w fs)
           then Some (0, verbosef Msg_already_enabled w)
           else
             (let q = tunefs_interact P ''Enable the inline data feature on device?'' w
              in if \<not> fst q then Some (0, snd q)
                 else
                   (let r = ocfs2_write_super P fs
                              (tunefs_block_signals
                                 (set_incompat_feature fs OCFS2_FEATURE_INCOMPAT_INLINE_DATA (snd q)));
                        w1 = tunefs_unblock_signals (snd r)
                    in case fst r of
                         None \<Rightarrow> Some (0, w1)
                       | Some code \<Rightarrow> Some (errcode_int P (Some code), tcom_err code w1)))))"

section \<open>The state a process starts in\<close>

text \<open>
  The initialisers of the static variables of \<^verbatim>\<open>libtunefs.c\<close>; no handle is open,
  nothing has happened, and the environment carries no lock token.
\<close>

definition closed_fs :: ocfs2_filesys where
  "closed_fs = \<lparr>fs_devname = [], s_feature_incompat = {}, s_max_slots = 0,
                fs_dlm_ctxt = False, fs_private = False\<rparr>"

definition initial_world :: world where
  "initial_world =
     \<lparr>fs_list = [], local_fd = - 1, local_fd_count = 0, online_fd = - 1, online_fd_count = 0,
      cluster_locked = False, verbosity = 1, interactive = False, journal_clusters = 0,
      segv_already = False, progname = ''(Unknown)'', lock_env = None,
      fs_store = (\<lambda>fs. closed_fs), next_fs = 0, trace = []\<rparr>"

section \<open>A sample volume and platform\<close>

text \<open>
  A mount-local volume with two slots whose journals are clean (5 and 7 clusters), and a
  global bitmap of one chain with one group of eight bits, five of them allocated.  On
  the sample platform every call succeeds.  The examples below vary these field by
  field.
\<close>

definition example_fs :: ocfs2_filesys where
  "example_fs = \<lparr>fs_devname = ''/dev/sdc1'',
                 s_feature_incompat = {OCFS2_FEATURE_INCOMPAT_LOCAL_MOUNT},
                 s_max_slots = 2, fs_dlm_ctxt = False, fs_private = False\<rparr>"

definition example_group :: ocfs2_group_desc where
  "example_group = \<lparr>bg_size = 1, bg_bits = 8, bg_free_bits_count = 3, bg_chain = 0,
                    bg_parent_dinode = 10, bg_next_group = 0, bg_bitmap = (\<lambda>i. 31)\<rparr>"

definition example_inode :: "64 word \<Rightarrow> ocfs2_dinode" where
  "example_inode blkno =
     \<lparr>i_blkno = blkno, i_clusters = (if blkno = 20 then 5 else 7), ij_dirty = False,
      cl_next_free_rec = (if blkno = 10 then 1 else 0),
      cl_recs = (\<lambda>i. \<lparr>c_free = 3, c_total = 8, c_blkno = 100\<rparr>)\<rparr>"

definition example_view :: fs_view where
  "example_view =
     \<lparr>v_malloc_block = None,
      v_lookup_system_inode =
        (\<lambda>t slot. case t of GLOBAL_BITMAP_SYSTEM_INODE \<Rightarrow> Inr 10
                            | JOURNAL_SYSTEM_INODE \<Rightarrow> Inr (20 + of_nat slot)),
      v_read_inode = (\<lambda>blkno. Inr (example_inode blkno)),
      v_read_group_desc = (\<lambda>blkno. if blkno = 100 then Inr example_group else Inl OCFS2_ET_IO)\<rparr>"

definition example_world :: world where
  "example_world = initial_world\<lparr>fs_store := (\<lambda>fs. example_fs)\<rparr>"

definition example_platform :: platform where
  "example_platform =
     \<lparr>x_open64 = (\<lambda>h path mode. Inr 3),
      x_check_if_mounted = (\<lambda>h dev. Inr {}),
      x_check_mount_point = (\<lambda>h dev. Inr ({}, [])),
      x_setenv_fails = (\<lambda>h s. False),
      x_unsetenv_fails = (\<lambda>h. False),
      x_o2cb_init = (\<lambda>h. None),
      x_initialize_dlm = (\<lambda>h fs. (None, True)),
      x_lock_down_cluster = (\<lambda>h fs. None),
      x_release_cluster = (\<lambda>h fs. None),
      x_shutdown_dlm = (\<lambda>h fs. (None, False)),
      x_ocfs2_open = (\<lambda>h dev flags. Inr example_fs),
      x_ocfs2_close = (\<lambda>h fs. None),
      x_malloc0 = (\<lambda>h. None),
      x_view = (\<lambda>h fs. example_view),
      x_write_super = (\<lambda>h fs. None),
      x_fgets = (\<lambda>h. None),
      x_sigaction_fails = (\<lambda>h. False),
      x_getopt_long = (\<lambda>h argv. ([], tl argv)),
      x_errcode_value = (\<lambda>code. 1),
      x_PROGNAME = ''tunefs.ocfs2'',
      x_basename = (\<lambda>path. path)\<rparr>"

text \<open>
  An operation that opens the volume read-only and whose body does nothing but return a
  status, and the worlds a run of \<^verbatim>\<open>tunefs_main\<close> with it on \<^verbatim>\<open>/dev/sdc1\<close> passes
  through: after \<^verbatim>\<open>tunefs_init\<close>, after the master handle (handle 0) is open, and
  after the operation handle (handle 1) is open.
\<close>

definition example_operation :: "int \<Rightarrow> unit tunefs_operation" where
  "example_operation status =
     \<lparr>to_name = ''query'', to_open_flags = {}, to_parse_option = None,
      to_run = (\<lambda>fs flags user_data w. Some (status, w)), to_user_data = ()\<rparr>"

definition stage_init :: world where
  "stage_init = initial_world\<lparr>progname := ''tunefs'', trace := [Ev_sigaction, Ev_getopt_long]\<rparr>"

definition stage_master :: world where
  "stage_master = stage_init
     \<lparr>fs_list := [0], fs_store := (fs_store stage_init)(0 := example_fs\<lparr>fs_private := True\<rparr>),
      next_fs := Suc 0,
      trace := trace stage_init @
        [Ev_ocfs2_open ''/dev/sdc1'' {OCFS2_FLAG_HEARTBEAT_DEV_OK, OCFS2_FLAG_RO}, Ev_malloc]\<rparr>"

definition stage_operation :: world where
  "stage_operation = stage_master
     \<lparr>fs_list := [Suc 0, 0], fs_store := (fs_store stage_master)(Suc 0 := example_fs\<lparr>fs_private := True\<rparr>),
      next_fs := Suc (Suc 0),
      trace := trace stage_master @
        [Ev_ocfs2_open ''/dev/sdc1'' {OCFS2_FLAG_HEARTBEAT_DEV_OK, OCFS2_FLAG_RO}, Ev_malloc]\<rparr>"

text \<open>
  The sample volume with the journal inode of slot 0 (block 20) unreadable and every
  other journal dirty.
\<close>

definition unreadable_view :: fs_view where
  "unreadable_view = example_view
     \<lparr>v_read_inode := (\<lambda>blkno. if blkno = 20 then Inl OCFS2_ET_IO
                               else Inr ((example_inode blkno)\<lparr>ij_dirty := True\<rparr>))\<rparr>"

text \<open>
  A volume whose global bitmap has one chain of one group with every bit clear: 8 bits, all
  of them free, the chain record holding the same totals.
\<close>

definition all_free_group :: ocfs2_group_desc where
  "all_free_group = example_group\<lparr>bg_free_bits_count := 8, bg_bitmap := (\<lambda>i. 0)\<rparr>"

definition all_free_inode :: ocfs2_dinode where
  "all_free_inode = (example_inode 10)\<lparr>cl_recs := (\<lambda>i. \<lparr>c_free = 8, c_total = 8, c_blkno = 100\<rparr>)\<rparr>"

definition all_free_view :: fs_view where
  "all_free_view = example_view\<lparr>v_read_inode := (\<lambda>blkno. Inr all_free_inode),
                                 v_read_group_desc := (\<lambda>blkno. Inr all_free_group)\<rparr>"

section \<open>Consistent allocators\<close>

text \<open>
  \<^term>\<open>chain_from V blkno gds\<close>: following the next-group links from \<^term>\<open>blkno\<close> reads
  exactly the descriptors \<^term>\<open>gds\<close> and then reaches block 0.  \<^term>\<open>group_consistent\<close>
  lists the invariants of one descriptor: its parent and chain, the free bits counted in its
  bitmap, the capacity of the bitmap, and free bits not above total bits.
\<close>

fun chain_from :: "fs_view \<Rightarrow> 64 word \<Rightarrow> ocfs2_group_desc list \<Rightarrow> bool" where
  "chain_from V blkno [] = (blkno = 0)"
| "chain_from V blkno (gd # gds) =
     (blkno \<noteq> 0 \<and> v_read_group_desc V blkno = Inr gd \<and> chain_from V (bg_next_group gd) gds)"

definition group_consistent :: "ocfs2_dinode \<Rightarrow> nat \<Rightarrow> ocfs2_group_desc \<Rightarrow> bool" where
  "group_consistent di chain gd =
     (tunefs_count_free_bits gd = unat (bg_free_bits_count gd)
      \<and> unat (bg_bits gd) \<le> 8 * unat (bg_size gd)
      \<and> bg_free_bits_count gd \<le> bg_bits gd
      \<and> bg_parent_dinode gd = i_blkno di
      \<and> unat (bg_chain gd) = chain)"

section \<open>What a trace shows\<close>

text \<open>
  The handles closed (by \<^verbatim>\<open>ocfs2_close\<close>) and the inode blocks read, each in the
  order of the trace.
\<close>

definition closed_by :: "event \<Rightarrow> nat list" where
  "closed_by e = (case e of Ev_ocfs2_close fs \<Rightarrow> [fs] | _ \<Rightarrow> [])"

definition closed_handles :: "history \<Rightarrow> nat list" where
  "closed_handles h = concat (map closed_by h)"

definition handle_list :: "nat option \<Rightarrow> nat list" where
  "handle_list fsp = (case fsp of None \<Rightarrow> [] | Some fs \<Rightarrow> [fs])"

definition inodes_read :: "history \<Rightarrow> 64 word list" where
  "inodes_read h = concat (map (\<lambda>e. case e of Ev_read_inode fs blkno \<Rightarrow> [blkno] | _ \<Rightarrow> []) h)"



text \<open>Registering handles one after the other, in the order they are opened.\<close>

fun register_all :: "platform \<Rightarrow> nat list \<Rightarrow> world \<Rightarrow> world" where
  "register_all P [] w = w"
| "register_all P (fs # rest) w = register_all P rest (snd (tunefs_add_fs P fs w))"

definition slot_events :: "nat \<Rightarrow> (nat \<Rightarrow> 64 word) \<Rightarrow> nat \<Rightarrow> event list" where
  "slot_events fs blk k = [Ev_lookup_system_inode fs JOURNAL_SYSTEM_INODE k, Ev_read_inode fs (blk k)]"

section \<open>Access coordinator: the local exclusive descriptor\<close>

text \<open>
  C5 (as amended).  When the first local-exclusive acquisition finds the device busy
  (\<^verbatim>\<open>open64\<close> fails with \<^verbatim>\<open>EBUSY\<close>), \<^verbatim>\<open>tunefs_lock_local\<close> asks
  \<^verbatim>\<open>ocfs2_check_if_mounted\<close>.  If that query answers, the result is
  \<^verbatim>\<open>TUNEFS_ET_PERFORM_ONLINE\<close> exactly when the device is mounted, not read-only, not
  swap, and the caller passed \<^verbatim>\<open>TUNEFS_FLAG_ONLINE\<close>, and \<^verbatim>\<open>TUNEFS_ET_DEVICE_BUSY\<close>
  in every other case.  If the query itself fails, its error code is returned.
\<close>

theorem tunefs_lock_local_busy:
  assumes "local_fd_count w = 0"
    and "x_open64 P (trace w) (fs_devname (fs_store w fs)) O_RDWR_O_EXCL = Inl EBUSY"
  shows "fst (tunefs_lock_local P fs flags w) =
     (case x_check_if_mounted P (trace w @ [Ev_open64 (fs_devname (fs_store w fs)) O_RDWR_O_EXCL])
             (fs_devname (fs_store w fs)) of
        Inl err \<Rightarrow> Some err
      | Inr mf \<Rightarrow>
          Some (if OCFS2_MF_MOUNTED \<in> mf \<and> OCFS2_MF_READONLY \<notin> mf \<and> OCFS2_MF_SWAP \<notin> mf \<and>
                   TUNEFS_FLAG_ONLINE \<in> flags
                then TUNEFS_ET_PERFORM_ONLINE else TUNEFS_ET_DEVICE_BUSY))"
  using assms
  by (auto simp: tunefs_lock_local_def Let_def emit_def split: sum.splits)

text \<open>The device is mounted read-write and the caller can work online.\<close>

theorem tunefs_lock_local_busy_witness:
  "fst (tunefs_lock_local
          (example_platform\<lparr>x_open64 := (\<lambda>h path mode. Inl EBUSY),
                             x_check_if_mounted := (\<lambda>h dev. Inr {OCFS2_MF_MOUNTED})\<rparr>)
          0 {TUNEFS_FLAG_RW, TUNEFS_FLAG_ONLINE} initial_world)
   = Some TUNEFS_ET_PERFORM_ONLINE"
  using tunefs_lock_local_busy [of initial_world
      "example_platform\<lparr>x_open64 := (\<lambda>h path mode. Inl EBUSY),
                         x_check_if_mounted := (\<lambda>h dev. Inr {OCFS2_MF_MOUNTED})\<rparr>"
      0 "{TUNEFS_FLAG_RW, TUNEFS_FLAG_ONLINE}"]
  by (simp add: initial_world_def example_platform_def)

text \<open>
  The device is busy and the mount query fails with an I/O error: the result is that
  error, neither of the two outcomes.
\<close>

theorem tunefs_lock_local_busy_counterexample:
  "x_open64 (example_platform\<lparr>x_open64 := (\<lambda>h path mode. Inl EBUSY),
                              x_check_if_mounted := (\<lambda>h dev. Inl OCFS2_ET_IO)\<rparr>)
      (trace initial_world) (fs_devname (fs_store initial_world 0)) O_RDWR_O_EXCL = Inl EBUSY
   \<and> fst (tunefs_lock_local
          (example_platform\<lparr>x_open64 := (\<lambda>h path mode. Inl EBUSY),
                             x_check_if_mounted := (\<lambda>h dev. Inl OCFS2_ET_IO)\<rparr>)
          0 {TUNEFS_FLAG_RW, TUNEFS_FLAG_ONLINE} initial_world)
     = Some OCFS2_ET_IO
   \<and> Some OCFS2_ET_IO \<noteq> Some TUNEFS_ET_DEVICE_BUSY
   \<and> Some OCFS2_ET_IO \<noteq> Some TUNEFS_ET_PERFORM_ONLINE"
  by (simp add: tunefs_lock_local_def initial_world_def example_platform_def Let_def emit_def)

text \<open>
  C6.  The local exclusive descriptor is reference-counted.  Start with no local lock
  held and let the first acquisition open the device with descriptor \<open>rc\<close>.  A
  second acquisition succeeds, changes nothing but the count (now 2) and calls nothing
  outside, so the device is not opened again.  One release leaves the descriptor open
  (count 1, \<open>local_fd\<close> still \<open>rc\<close>, nothing closed); the second release closes it
  (count 0, \<open>local_fd\<close> back to \<open>-1\<close>, one \<^verbatim>\<open>close\<close> of \<open>rc\<close>).
\<close>

theorem local_lock_reference_counted:
  assumes idle: "local_fd_count w = 0"
    and opened: "x_open64 P (trace w) (fs_devname (fs_store w fs)) O_RDWR_O_EXCL = Inr rc"
  shows "let a1 = tunefs_lock_local P fs flags w;
             a2 = tunefs_lock_local P fs flags' (snd a1);
             u1 = tunefs_unlock_local (snd a2);
             u2 = tunefs_unlock_local u1
         in fst a1 = None \<and> fst a2 = None
            \<and> snd a2 = (snd a1)\<lparr>local_fd_count := 2\<rparr>
            \<and> trace (snd a2) = trace (snd a1)
            \<and> local_fd_count u1 = 1 \<and> local_fd u1 = int rc \<and> trace u1 = trace (snd a1)
            \<and> local_fd_count u2 = 0 \<and> local_fd u2 = - 1
            \<and> trace u2 = trace (snd a1) @ [Ev_close (int rc)]"
  using assms
  by (simp add: tunefs_lock_local_def tunefs_unlock_local_def Let_def emit_def)

theorem local_lock_reference_counted_witness:
  "let a1 = tunefs_lock_local example_platform 0 {TUNEFS_FLAG_RW} initial_world;
       a2 = tunefs_lock_local example_platform 0 {TUNEFS_FLAG_RW} (snd a1);
       u1 = tunefs_unlock_local (snd a2);
       u2 = tunefs_unlock_local u1
   in fst a1 = None \<and> fst a2 = None
      \<and> snd a2 = (snd a1)\<lparr>local_fd_count := 2\<rparr>
      \<and> trace (snd a2) = trace (snd a1)
      \<and> local_fd_count u1 = 1 \<and> local_fd u1 = 3 \<and> trace u1 = trace (snd a1)
      \<and> local_fd_count u2 = 0 \<and> local_fd u2 = - 1
      \<and> trace u2 = trace (snd a1) @ [Ev_close 3]"
  using local_lock_reference_counted [of initial_world example_platform 0 3
      "{TUNEFS_FLAG_RW}" "{TUNEFS_FLAG_RW}"]
  by (simp add: initial_world_def example_platform_def)

section \<open>Access coordinator: the handoff token\<close>

lemma set_lock_env_ok:
  "fst (tunefs_set_lock_env P status w) = None \<Longrightarrow>
     lock_env (snd (tunefs_set_lock_env P status w)) = status
     \<and> cluster_locked (snd (tunefs_set_lock_env P status w)) = cluster_locked w"
  by (auto simp: tunefs_set_lock_env_def emit_def split: option.splits if_splits)

lemma set_lock_env_result:
  "fst (tunefs_set_lock_env P status w) = None
   \<or> fst (tunefs_set_lock_env P status w) = Some TUNEFS_ET_INTERNAL_FAILURE"
  by (simp add: tunefs_set_lock_env_def split: option.splits)

lemma out_set_online:
  assumes "fst (lock_cluster_out_set P fs err w) = Some TUNEFS_ET_PERFORM_ONLINE"
  shows "lock_env (snd (lock_cluster_out_set P fs err w)) = Some ''online''"
proof -
  let ?r = "if err = None \<and> cluster_locked w
            then tunefs_set_lock_env P (Some TUNEFS_OCFS2_LOCK_ENV_LOCKED) w
            else if err = Some TUNEFS_ET_PERFORM_ONLINE
            then tunefs_set_lock_env P (Some TUNEFS_OCFS2_LOCK_ENV_ONLINE) w
            else tunefs_set_lock_env P None w"
  have res: "fst ?r = None \<or> fst ?r = Some TUNEFS_ET_INTERNAL_FAILURE"
    using set_lock_env_result by auto
  have ok: "fst ?r = None"
    using assms res by (auto simp: lock_cluster_out_set_def Let_def split: if_splits)
  then have eq: "lock_cluster_out_set P fs err w = (err, snd ?r)"
    by (simp add: lock_cluster_out_set_def Let_def)
  then have "err = Some TUNEFS_ET_PERFORM_ONLINE"
    using assms by simp
  then show ?thesis
    using ok eq set_lock_env_ok [of P "Some TUNEFS_OCFS2_LOCK_ENV_ONLINE" w]
    by (simp add: TUNEFS_OCFS2_LOCK_ENV_ONLINE_def)
qed

lemma out_set_ok:
  assumes "fst (lock_cluster_out_set P fs err w) = None"
  shows "err = None
       \<and> cluster_locked (snd (lock_cluster_out_set P fs err w)) = cluster_locked w
       \<and> lock_env (snd (lock_cluster_out_set P fs err w))
           = (if cluster_locked w then Some ''locked'' else None)"
proof -
  let ?r = "if err = None \<and> cluster_locked w
            then tunefs_set_lock_env P (Some TUNEFS_OCFS2_LOCK_ENV_LOCKED) w
            else if err = Some TUNEFS_ET_PERFORM_ONLINE
            then tunefs_set_lock_env P (Some TUNEFS_OCFS2_LOCK_ENV_ONLINE) w
            else tunefs_set_lock_env P None w"
  have ok: "fst ?r = None"
    using assms by (auto simp: lock_cluster_out_set_def Let_def split: if_splits)
  then have eq: "lock_cluster_out_set P fs err w = (err, snd ?r)"
    by (simp add: lock_cluster_out_set_def Let_def)
  then have e: "err = None"
    using assms by simp
  show ?thesis
  proof (cases "cluster_locked w")
    case True
    then show ?thesis
      using e ok eq set_lock_env_ok [of P "Some TUNEFS_OCFS2_LOCK_ENV_LOCKED" w]
      by (simp add: TUNEFS_OCFS2_LOCK_ENV_LOCKED_def)
  next
    case False
    then show ?thesis
      using e ok eq set_lock_env_ok [of P None w] by simp
  qed
qed

lemma lock_local_frame:
  "cluster_locked (snd (tunefs_lock_local P fs flags w)) = cluster_locked w"
  by (simp add: tunefs_lock_local_def Let_def emit_def split: sum.splits)

lemma get_lock_env_cases:
  "(fst (tunefs_get_lock_env P w) = None \<longrightarrow> lock_env w = Some ''locked'')
   \<and> (fst (tunefs_get_lock_env P w) = Some TUNEFS_ET_PERFORM_ONLINE \<longrightarrow> lock_env w = Some ''online'')
   \<and> lock_env (snd (tunefs_get_lock_env P w)) = lock_env w
   \<and> cluster_locked (snd (tunefs_get_lock_env P w)) = cluster_locked w"
  by (simp add: tunefs_get_lock_env_def TUNEFS_OCFS2_LOCK_ENV_LOCKED_def
      TUNEFS_OCFS2_LOCK_ENV_ONLINE_def split: option.splits)

text \<open>
  C2 (as amended).  Let no call of the cluster stack answer with libtunefs' own code
  \<^verbatim>\<open>TUNEFS_ET_PERFORM_ONLINE\<close>.  When \<^verbatim>\<open>tunefs_lock_cluster\<close> returns
  \<^verbatim>\<open>TUNEFS_ET_PERFORM_ONLINE\<close>, the environment variable is \<^verbatim>\<open>online\<close>.  When it
  returns 0 with the cluster lock held (\<^verbatim>\<open>cluster_locked\<close> set), the variable is
  \<^verbatim>\<open>locked\<close>.  When it returns 0 on a mount-local volume, where the local exclusive
  descriptor is what was obtained and no cluster lock is held, the variable is not set:
  it has been removed from the environment.
\<close>

theorem lock_cluster_handoff_token:
  assumes lib: "\<forall>h. x_o2cb_init P h \<noteq> Some TUNEFS_ET_PERFORM_ONLINE"
      "\<forall>h f. fst (x_initialize_dlm P h f) \<noteq> Some TUNEFS_ET_PERFORM_ONLINE"
      "\<forall>h f. x_lock_down_cluster P h f \<noteq> Some TUNEFS_ET_PERFORM_ONLINE"
  shows "(fst (tunefs_lock_cluster P fs flags w) = Some TUNEFS_ET_PERFORM_ONLINE \<longrightarrow>
            lock_env (snd (tunefs_lock_cluster P fs flags w)) = Some ''online'')
       \<and> (fst (tunefs_lock_cluster P fs flags w) = None \<and>
          cluster_locked (snd (tunefs_lock_cluster P fs flags w)) \<longrightarrow>
            lock_env (snd (tunefs_lock_cluster P fs flags w)) = Some ''locked'')
       \<and> (fst (tunefs_lock_cluster P fs flags w) = None \<and>
          \<not> cluster_locked (snd (tunefs_lock_cluster P fs flags w)) \<and>
          ocfs2_mount_local (fs_store w fs) \<longrightarrow>
            lock_env (snd (tunefs_lock_cluster P fs flags w)) = None)"
proof (cases "ocfs2_mount_local (fs_store w fs)")
  case True
  let ?l = "tunefs_lock_local P fs flags w"
  have eq: "tunefs_lock_cluster P fs flags w = lock_cluster_out_set P fs (fst ?l) (snd ?l)"
    using True by (simp add: tunefs_lock_cluster_def Let_def)
  show ?thesis
    unfolding eq
    using out_set_online [of P fs "fst ?l" "snd ?l"] out_set_ok [of P fs "fst ?l" "snd ?l"]
    by (auto simp: lock_local_frame)
next
  case nl: False
  let ?r1 = "tunefs_get_lock_env P w"
  note g = get_lock_env_cases [of P w]
  show ?thesis
  proof (cases "fst ?r1 = None \<or> (TUNEFS_FLAG_ONLINE \<in> flags \<and> fst ?r1 = Some TUNEFS_ET_PERFORM_ONLINE)")
    case True
    then have "tunefs_lock_cluster P fs flags w = ?r1"
      using nl by (simp add: tunefs_lock_cluster_def Let_def)
    then show ?thesis
      using g nl True by auto
  next
    case inherit: False
    let ?r2 = "o2cb_init P (snd ?r1)"
    have unfold1: "tunefs_lock_cluster P fs flags w =
        (if fst ?r2 \<noteq> None then ?r2
         else
           (let r3 = ocfs2_initialize_dlm P fs (snd ?r2)
            in if TUNEFS_FLAG_NOCLUSTER \<in> flags \<and> fst r3 = None
               then lock_cluster_out_set P fs (fst r3) (snd r3)
               else if TUNEFS_FLAG_NOCLUSTER \<in> flags \<and> fst r3 = Some O2CB_ET_INVALID_STACK_NAME
               then lock_cluster_out_set P fs (Some TUNEFS_ET_INVALID_STACK_NAME) (snd r3)
               else if fst r3 \<noteq> None
               then r3
               else
                 (let r4 = ocfs2_lock_down_cluster P fs (tunefs_block_signals (snd r3));
                      w4 = tunefs_unblock_signals (snd r4)
                  in if fst r4 = None
                     then lock_cluster_out_set P fs None (w4\<lparr>cluster_locked := True\<rparr>)
                     else if fst r4 = Some O2DLM_ET_TRYLOCK_FAILED \<and> TUNEFS_FLAG_ONLINE \<in> flags
                     then lock_cluster_out_set P fs (Some TUNEFS_ET_PERFORM_ONLINE) w4
                     else (fst r4, snd (ocfs2_shutdown_dlm P fs w4)))))"
      using nl inherit unfolding tunefs_lock_cluster_def Let_def by (simp only: if_False)
    show ?thesis
    proof (cases "fst ?r2 = None")
      case False
      then have "tunefs_lock_cluster P fs flags w = ?r2"
        unfolding unfold1 by simp
      then show ?thesis
        using False lib(1) nl by (auto simp: o2cb_init_def)
    next
      case init: True
      let ?r3 = "ocfs2_initialize_dlm P fs (snd ?r2)"
      have r3: "fst ?r3 \<noteq> Some TUNEFS_ET_PERFORM_ONLINE"
        using lib(2) by (simp add: ocfs2_initialize_dlm_def)
      let ?r4 = "ocfs2_lock_down_cluster P fs (tunefs_block_signals (snd ?r3))"
      let ?w4 = "tunefs_unblock_signals (snd ?r4)"
      have r4: "fst ?r4 \<noteq> Some TUNEFS_ET_PERFORM_ONLINE"
        using lib(3) by (simp add: ocfs2_lock_down_cluster_def)
      have out: "fst (lock_cluster_out_set P fs err w') = Some TUNEFS_ET_PERFORM_ONLINE \<longrightarrow>
                   lock_env (snd (lock_cluster_out_set P fs err w')) = Some ''online''"
               "fst (lock_cluster_out_set P fs err w') = None \<and>
                cluster_locked (snd (lock_cluster_out_set P fs err w')) \<longrightarrow>
                   lock_env (snd (lock_cluster_out_set P fs err w')) = Some ''locked''" for err w'
        using out_set_online [of P fs err w'] out_set_ok [of P fs err w'] by auto
      show ?thesis
      proof (cases "TUNEFS_FLAG_NOCLUSTER \<in> flags \<and> fst ?r3 = None")
        case True
        then have "tunefs_lock_cluster P fs flags w = lock_cluster_out_set P fs (fst ?r3) (snd ?r3)"
          unfolding unfold1 using init by (auto simp: Let_def)
        then show ?thesis using out nl by simp
      next
        case c1: False
        show ?thesis
        proof (cases "TUNEFS_FLAG_NOCLUSTER \<in> flags \<and> fst ?r3 = Some O2CB_ET_INVALID_STACK_NAME")
          case True
          then have "tunefs_lock_cluster P fs flags w
                 = lock_cluster_out_set P fs (Some TUNEFS_ET_INVALID_STACK_NAME) (snd ?r3)"
            unfolding unfold1 using init c1 by (auto simp: Let_def)
          then show ?thesis using out nl by simp
        next
          case c2: False
          show ?thesis
          proof (cases "fst ?r3 = None")
            case False
            then have "tunefs_lock_cluster P fs flags w = ?r3"
              unfolding unfold1 using init c1 c2 by (auto simp: Let_def)
            then show ?thesis using r3 False nl by auto
          next
            case c3: True
            show ?thesis
            proof (cases "fst ?r4 = None")
              case True
              then have "tunefs_lock_cluster P fs flags w
                 = lock_cluster_out_set P fs None (?w4\<lparr>cluster_locked := True\<rparr>)"
                unfolding unfold1 using init c1 c2 c3 by (auto simp: Let_def)
              then show ?thesis using out nl by simp
            next
              case c4: False
              show ?thesis
              proof (cases "fst ?r4 = Some O2DLM_ET_TRYLOCK_FAILED \<and> TUNEFS_FLAG_ONLINE \<in> flags")
                case True
                then have "tunefs_lock_cluster P fs flags w
                   = lock_cluster_out_set P fs (Some TUNEFS_ET_PERFORM_ONLINE) ?w4"
                  unfolding unfold1 using init c1 c2 c3 c4 by (auto simp: Let_def)
                then show ?thesis using out nl by simp
              next
                case False
                then have "tunefs_lock_cluster P fs flags w
                   = (fst ?r4, snd (ocfs2_shutdown_dlm P fs ?w4))"
                  unfolding unfold1 using init c1 c2 c3 c4 by (auto simp: Let_def)
                then show ?thesis using r4 c4 nl by auto
              qed
            qed
          qed
        qed
      qed
    qed
  qed
qed

text \<open>A mount-local volume that is busy because it is mounted: the token is \<^verbatim>\<open>online\<close>.\<close>

theorem lock_cluster_handoff_token_witness:
  "fst (tunefs_lock_cluster
          (example_platform\<lparr>x_open64 := (\<lambda>h path mode. Inl EBUSY),
                             x_check_if_mounted := (\<lambda>h dev. Inr {OCFS2_MF_MOUNTED})\<rparr>)
          0 {TUNEFS_FLAG_RW, TUNEFS_FLAG_ONLINE} example_world) = Some TUNEFS_ET_PERFORM_ONLINE
   \<and> lock_env (snd (tunefs_lock_cluster
          (example_platform\<lparr>x_open64 := (\<lambda>h path mode. Inl EBUSY),
                             x_check_if_mounted := (\<lambda>h dev. Inr {OCFS2_MF_MOUNTED})\<rparr>)
          0 {TUNEFS_FLAG_RW, TUNEFS_FLAG_ONLINE} example_world)) = Some ''online''"
proof -
  let ?P = "example_platform\<lparr>x_open64 := (\<lambda>h path mode. Inl EBUSY),
                             x_check_if_mounted := (\<lambda>h dev. Inr {OCFS2_MF_MOUNTED})\<rparr>"
  have lib: "\<forall>h. x_o2cb_init ?P h \<noteq> Some TUNEFS_ET_PERFORM_ONLINE"
      "\<forall>h f. fst (x_initialize_dlm ?P h f) \<noteq> Some TUNEFS_ET_PERFORM_ONLINE"
      "\<forall>h f. x_lock_down_cluster ?P h f \<noteq> Some TUNEFS_ET_PERFORM_ONLINE"
    by (simp_all add: example_platform_def)
  have "fst (tunefs_lock_cluster ?P 0 {TUNEFS_FLAG_RW, TUNEFS_FLAG_ONLINE} example_world)
          = Some TUNEFS_ET_PERFORM_ONLINE"
    by (simp add: tunefs_lock_cluster_def example_world_def example_fs_def ocfs2_mount_local_def
        tunefs_lock_local_def initial_world_def Let_def lock_cluster_out_set_def
        tunefs_set_lock_env_def example_platform_def emit_def)
  then show ?thesis
    using lock_cluster_handoff_token [OF lib, of 0 "{TUNEFS_FLAG_RW, TUNEFS_FLAG_ONLINE}" example_world]
    by simp
qed

text \<open>
  A mount-local volume that is free: the descriptor is obtained (descriptor 3, count
  1), the call returns 0, and the token is not in the environment.
\<close>

theorem lock_cluster_handoff_token_counterexample:
  "ocfs2_mount_local (fs_store example_world 0)
   \<and> fst (tunefs_lock_cluster example_platform 0 {TUNEFS_FLAG_RW} example_world) = None
   \<and> local_fd (snd (tunefs_lock_cluster example_platform 0 {TUNEFS_FLAG_RW} example_world)) = 3
   \<and> local_fd_count (snd (tunefs_lock_cluster example_platform 0 {TUNEFS_FLAG_RW} example_world)) = 1
   \<and> lock_env (snd (tunefs_lock_cluster example_platform 0 {TUNEFS_FLAG_RW} example_world)) = None
   \<and> lock_env (snd (tunefs_lock_cluster example_platform 0 {TUNEFS_FLAG_RW} example_world))
       \<noteq> Some ''locked''"
  by (simp add: tunefs_lock_cluster_def example_world_def example_fs_def ocfs2_mount_local_def
        tunefs_lock_local_def initial_world_def Let_def lock_cluster_out_set_def
        tunefs_set_lock_env_def example_platform_def emit_def)

section \<open>Handle registry\<close>

lemma closed_handles_append:
  "closed_handles (a @ b) = closed_handles a @ closed_handles b"
  by (simp add: closed_handles_def)

lemma closed_handles_single:
  "closed_handles [] = []" "closed_handles (e # es) = closed_by e @ closed_handles es"
  by (simp_all add: closed_handles_def)

lemma trace_emit: "trace (emit e w) = trace w @ [e]"
  by (simp add: emit_def)

lemma closed_handles_set_lock_env:
  "closed_handles (trace (snd (tunefs_set_lock_env P status w))) = closed_handles (trace w)"
  by (simp add: tunefs_set_lock_env_def trace_emit closed_handles_append closed_handles_single
      closed_by_def split: option.splits)

lemma closed_handles_unlock_local:
  "closed_handles (trace (tunefs_unlock_local w)) = closed_handles (trace w)"
  by (simp add: tunefs_unlock_local_def Let_def trace_emit closed_handles_append
      closed_handles_single closed_by_def)

lemma closed_handles_close_online:
  "closed_handles (trace (tunefs_close_online_descriptor w)) = closed_handles (trace w)"
  by (simp add: tunefs_close_online_descriptor_def Let_def trace_emit closed_handles_append
      closed_handles_single closed_by_def)

lemma closed_handles_shutdown_dlm:
  "closed_handles (trace (snd (ocfs2_shutdown_dlm P fs w))) = closed_handles (trace w)"
  by (simp add: ocfs2_shutdown_dlm_def set_dlm_ctxt_def trace_emit closed_handles_append
      closed_handles_single closed_by_def)

lemma closed_handles_unlock_cluster:
  "closed_handles (trace (snd (tunefs_unlock_cluster P fsp w))) = closed_handles (trace w)"
  by (simp add: tunefs_unlock_cluster_def Let_def closed_handles_set_lock_env
      closed_handles_shutdown_dlm closed_handles_unlock_local ocfs2_release_cluster_def
      tunefs_block_signals_def tunefs_unblock_signals_def trace_emit closed_handles_append
      closed_handles_single closed_by_def split: option.splits)

lemma closed_handles_remove_fs:
  "closed_handles (trace (tunefs_remove_fs fs w)) = closed_handles (trace w)"
  by (simp add: tunefs_remove_fs_def set_fs_private_def)

lemma closed_handles_tunefs_close:
  "closed_handles (trace (snd (tunefs_close P (Some fs) w))) = closed_handles (trace w) @ [fs]"
  by (simp add: tunefs_close_def Let_def ocfs2_close_def trace_emit closed_handles_append
      closed_handles_single closed_by_def closed_handles_unlock_cluster
      closed_handles_close_online closed_handles_remove_fs)

lemma closed_handles_close_each:
  "closed_handles (trace (close_each P hs w)) = closed_handles (trace w) @ hs"
  by (induction hs arbitrary: w) (simp_all add: closed_handles_tunefs_close)

lemma register_all_list:
  "\<forall>h. x_malloc0 P h = None \<Longrightarrow> fs_list (register_all P hs w) = rev hs @ fs_list w"
  by (induction hs arbitrary: w) (simp_all add: tunefs_add_fs_def set_fs_private_def emit_def)

lemma register_all_closed:
  "closed_handles (trace (register_all P hs w)) = closed_handles (trace w)"
  by (induction hs arbitrary: w)
     (simp_all add: tunefs_add_fs_def set_fs_private_def trace_emit closed_handles_append
        closed_handles_single closed_by_def split: option.splits)

lemma register_all_segv:
  "segv_already (register_all P hs w) = segv_already w"
  by (induction hs arbitrary: w)
     (simp_all add: tunefs_add_fs_def set_fs_private_def emit_def split: option.splits)

lemma closed_handles_errorf:
  "closed_handles (trace (errorf text w)) = closed_handles (trace w)"
  by (simp add: errorf_def verbosef_def trace_emit closed_handles_append closed_handles_single
      closed_by_def)

lemma fs_list_errorf: "fs_list (errorf text w) = fs_list w"
  by (simp add: errorf_def verbosef_def emit_def)

lemma handle_signal_teardown:
  assumes "caught_sig \<in> {SIGTERM, SIGINT, SIGHUP} \<or> (caught_sig = SIGSEGV \<and> \<not> segv_already w)"
  shows "fst (handle_signal P caught_sig w) = Exits 1
         \<and> closed_handles (trace (snd (handle_signal P caught_sig w)))
             = closed_handles (trace w) @ fs_list w"
proof -
  have "\<exists>w1. handle_signal P caught_sig w = (Exits 1, tunefs_close_all P w1)
             \<and> fs_list w1 = fs_list w \<and> closed_handles (trace w1) = closed_handles (trace w)"
  proof (cases "caught_sig = SIGSEGV")
    case True
    then have "handle_signal P caught_sig w
        = (Exits 1, tunefs_close_all P
             ((errorf ''Segmentation fault, exiting'' w)\<lparr>segv_already := True\<rparr>))"
      using assms by (simp add: handle_signal_def)
    then show ?thesis
      by (intro exI [of _ "(errorf ''Segmentation fault, exiting'' w)\<lparr>segv_already := True\<rparr>"])
         (simp add: fs_list_errorf closed_handles_errorf)
  next
    case False
    then have "handle_signal P caught_sig w
        = (Exits 1, tunefs_close_all P (errorf ''Caught signal, exiting'' w))"
      using assms by (auto simp: handle_signal_def)
    then show ?thesis
      by (intro exI [of _ "errorf ''Caught signal, exiting'' w"])
         (simp add: fs_list_errorf closed_handles_errorf)
  qed
  then obtain w1 where w1: "handle_signal P caught_sig w = (Exits 1, tunefs_close_all P w1)"
    "fs_list w1 = fs_list w" "closed_handles (trace w1) = closed_handles (trace w)"
    by blast
  have "closed_handles (trace (tunefs_close_all P w1)) = closed_handles (trace w1) @ fs_list w1"
    by (simp add: tunefs_close_all_def closed_handles_close_each)
  then show ?thesis
    using w1 by simp
qed

text \<open>
  C8.  Registration (\<^verbatim>\<open>tunefs_add_fs\<close>) pushes the new handle onto the front of
  \<open>fs_list\<close>.  So after the handles \<open>hs\<close> have been registered in this order,
  starting from an empty list, the list is \<open>rev hs\<close>.  A terminating signal that
  tears down (\<^verbatim>\<open>SIGTERM\<close>, \<^verbatim>\<open>SIGINT\<close>, \<^verbatim>\<open>SIGHUP\<close>, or the first
  \<^verbatim>\<open>SIGSEGV\<close>) then closes the handles from the front of the list, that is in the
  reverse of the order they were opened in, the first one opened last, and the process
  exits with status 1.
\<close>

theorem teardown_reverse_of_open:
  assumes alloc: "\<forall>h. x_malloc0 P h = None"
    and empty: "fs_list w = []"
    and sig: "caught_sig \<in> {SIGTERM, SIGINT, SIGHUP} \<or> (caught_sig = SIGSEGV \<and> \<not> segv_already w)"
  shows "fs_list (snd (tunefs_add_fs P fs w0)) = fs # fs_list w0
         \<and> fs_list (register_all P hs w) = rev hs
         \<and> fst (handle_signal P caught_sig (register_all P hs w)) = Exits 1
         \<and> closed_handles (trace (snd (handle_signal P caught_sig (register_all P hs w))))
             = closed_handles (trace w) @ rev hs"
proof -
  have push: "fs_list (snd (tunefs_add_fs P fs w0)) = fs # fs_list w0"
    using alloc by (simp add: tunefs_add_fs_def set_fs_private_def emit_def)
  have reg: "fs_list (register_all P hs w) = rev hs"
    using register_all_list [OF alloc, of hs w] empty by simp
  have sig': "caught_sig \<in> {SIGTERM, SIGINT, SIGHUP}
              \<or> (caught_sig = SIGSEGV \<and> \<not> segv_already (register_all P hs w))"
    using sig by (simp add: register_all_segv)
  show ?thesis
    using push reg handle_signal_teardown [OF sig', of P]
    by (simp add: register_all_closed)
qed

text \<open>Handles 0 and 1 are opened in this order; \<^verbatim>\<open>SIGTERM\<close> closes 1, then 0.\<close>

theorem teardown_reverse_of_open_witness:
  "fs_list (register_all example_platform [0, 1] example_world) = [1, 0]
   \<and> fst (handle_signal example_platform SIGTERM
            (register_all example_platform [0, 1] example_world)) = Exits 1
   \<and> closed_handles (trace (snd (handle_signal example_platform SIGTERM
            (register_all example_platform [0, 1] example_world)))) = [1, 0]"
proof -
  have a: "\<forall>h. x_malloc0 example_platform h = None"
    by (simp add: example_platform_def)
  have e: "fs_list example_world = []" "trace example_world = []"
    by (simp_all add: example_world_def initial_world_def)
  have s: "SIGTERM \<in> {SIGTERM, SIGINT, SIGHUP} \<or> (SIGTERM = SIGSEGV \<and> \<not> segv_already example_world)"
    by simp
  show ?thesis
    using teardown_reverse_of_open [OF a e(1) s, of 0 example_world "[0, 1]"] e(2)
    by (simp add: closed_handles_single)
qed

text \<open>
  C10.  \<^verbatim>\<open>tunefs_close\<close> with a null handle returns 0 and leaves the whole process
  state as it was: no registry entry is removed, no descriptor closed, no lock
  released, the environment untouched, and nothing is called.
\<close>

theorem tunefs_close_null:
  "tunefs_close P None w = (None, w)"
  by (simp add: tunefs_close_def)

theorem tunefs_close_null_witness:
  "tunefs_close example_platform None initial_world = (None, initial_world)"
  using tunefs_close_null [of example_platform initial_world] by simp

section \<open>Consistency validator\<close>

















lemma inodes_read_simps:
  "inodes_read [] = []"
  "inodes_read (a @ b) = inodes_read a @ inodes_read b"
  "inodes_read (Ev_read_inode fs blkno # h) = blkno # inodes_read h"
  "inodes_read (Ev_lookup_system_inode fs t slot # h) = inodes_read h"
  "inodes_read (Ev_message m # h) = inodes_read h"
  "inodes_read (Ev_malloc # h) = inodes_read h"
  by (simp_all add: inodes_read_def)

text \<open>One step of the loop over a clean, readable slot.\<close>

lemma journal_check_loop_clean_step:
  assumes "i < n"
    and "v_lookup_system_inode V JOURNAL_SYSTEM_INODE i = Inr b"
    and "v_read_inode V b = Inr di"
    and "\<not> ij_dirty di"
  shows "journal_check_loop V fs n i w =
         journal_check_loop V fs n (Suc i)
           (w\<lparr>journal_clusters := max (i_clusters di) (journal_clusters w),
              trace := trace w @ [Ev_lookup_system_inode fs JOURNAL_SYSTEM_INODE i, Ev_read_inode fs b]\<rparr>)"
proof -
  let ?w1 = "emit (Ev_read_inode fs b) (emit (Ev_lookup_system_inode fs JOURNAL_SYSTEM_INODE i) w)"
  have h: "(if journal_clusters ?w1 < i_clusters di
            then ?w1\<lparr>journal_clusters := i_clusters di\<rparr> else ?w1)
        = w\<lparr>journal_clusters := max (i_clusters di) (journal_clusters w),
             trace := trace w @ [Ev_lookup_system_inode fs JOURNAL_SYSTEM_INODE i, Ev_read_inode fs b]\<rparr>"
    by (simp add: emit_def max_def not_less)
  show ?thesis
    by (subst journal_check_loop.simps)
       (simp only: assms if_True if_False sum.case Let_def h)
qed

lemma journal_check_loop_dirty_step:
  assumes "i < n"
    and "v_lookup_system_inode V JOURNAL_SYSTEM_INODE i = Inr b"
    and "v_read_inode V b = Inr di"
    and "ij_dirty di"
  shows "journal_check_loop V fs n i w =
         (Some TUNEFS_ET_JOURNAL_DIRTY,
          w\<lparr>journal_clusters := max (i_clusters di) (journal_clusters w),
             trace := trace w @ [Ev_lookup_system_inode fs JOURNAL_SYSTEM_INODE i, Ev_read_inode fs b,
                                 Ev_message (Msg_journal_dirty i)]\<rparr>)"
proof -
  let ?w1 = "emit (Ev_read_inode fs b) (emit (Ev_lookup_system_inode fs JOURNAL_SYSTEM_INODE i) w)"
  have h: "verbosef (Msg_journal_dirty i)
             (if journal_clusters ?w1 < i_clusters di
              then ?w1\<lparr>journal_clusters := i_clusters di\<rparr> else ?w1)
        = w\<lparr>journal_clusters := max (i_clusters di) (journal_clusters w),
             trace := trace w @ [Ev_lookup_system_inode fs JOURNAL_SYSTEM_INODE i, Ev_read_inode fs b,
                                 Ev_message (Msg_journal_dirty i)]\<rparr>"
    by (simp add: emit_def verbosef_def max_def not_less)
  show ?thesis
    by (subst journal_check_loop.simps)
       (simp only: assms if_True if_False sum.case Let_def h)
qed

lemma journal_check_loop_clean_prefix:
  assumes "\<forall>k. i \<le> k \<and> k < d \<longrightarrow>
             v_lookup_system_inode V JOURNAL_SYSTEM_INODE k = Inr (blk k) \<and>
             v_read_inode V (blk k) = Inr (jd k) \<and> \<not> ij_dirty (jd k)"
    and "i \<le> d" and "d \<le> n"
  shows "journal_check_loop V fs n i w =
         journal_check_loop V fs n d
           (w\<lparr>journal_clusters := fold max (map (\<lambda>k. i_clusters (jd k)) [i..<d]) (journal_clusters w),
              trace := trace w @ concat (map (slot_events fs blk) [i..<d])\<rparr>)"
  using assms
proof (induction "d - i" arbitrary: i w)
  case 0
  then show ?case by simp
next
  case (Suc m)
  then have lt: "i < d" by simp
  have here: "v_lookup_system_inode V JOURNAL_SYSTEM_INODE i = Inr (blk i)"
    "v_read_inode V (blk i) = Inr (jd i)" "\<not> ij_dirty (jd i)"
    using Suc.prems(1) lt by auto
  let ?w = "w\<lparr>journal_clusters := max (i_clusters (jd i)) (journal_clusters w),
               trace := trace w @ slot_events fs blk i\<rparr>"
  have step: "journal_check_loop V fs n i w = journal_check_loop V fs n (Suc i) ?w"
    using journal_check_loop_clean_step [OF _ here, of n fs w] lt Suc.prems(3)
    by (simp add: slot_events_def)
  have rest: "journal_check_loop V fs n (Suc i) ?w =
         journal_check_loop V fs n d
           (?w\<lparr>journal_clusters := fold max (map (\<lambda>k. i_clusters (jd k)) [Suc i..<d]) (journal_clusters ?w),
              trace := trace ?w @ concat (map (slot_events fs blk) [Suc i..<d])\<rparr>)"
    using Suc.hyps(1) [of "Suc i" ?w] Suc.hyps(2) Suc.prems lt by simp
  have upt: "[i..<d] = i # [Suc i..<d]"
    using lt by (simp add: upt_conv_Cons)
  show ?case
    unfolding step rest upt by simp
qed

lemma fold_max_Max:
  "fold max xs (a :: 'a :: linorder) = Max (insert a (set xs))"
  using Max.set_eq_fold [of a xs] by simp




text \<open>The checks on the sample volume.\<close>

lemma example_view_simps:
  "v_malloc_block example_view = None"
  "v_lookup_system_inode example_view GLOBAL_BITMAP_SYSTEM_INODE slot = Inr 10"
  "v_lookup_system_inode example_view JOURNAL_SYSTEM_INODE slot = Inr (20 + of_nat slot)"
  "v_read_inode example_view blkno = Inr (example_inode blkno)"
  "v_read_group_desc example_view 100 = Inr example_group"
  by (simp_all add: example_view_def)










text \<open>
  The scan of \<^verbatim>\<open>tunefs_journal_check\<close> stops somewhere on every volume: there is a
  first slot \<open>d\<close> whose journal inode is not found, not read or dirty, or there is
  none (\<open>d = n\<close>), and the journal inodes of the slots before \<open>d\<close> are found, read
  and clean.
\<close>

lemma journal_scan_stops:
  "\<exists>d blk jd. d \<le> n
     \<and> (\<forall>k<d. v_lookup_system_inode V JOURNAL_SYSTEM_INODE k = Inr (blk k) \<and>
               v_read_inode V (blk k) = Inr (jd k) \<and> \<not> ij_dirty (jd k))
     \<and> (d = n
        \<or> (\<exists>e. v_lookup_system_inode V JOURNAL_SYSTEM_INODE d = Inl e)
        \<or> (\<exists>b e. v_lookup_system_inode V JOURNAL_SYSTEM_INODE d = Inr b \<and> v_read_inode V b = Inl e)
        \<or> (\<exists>b di. v_lookup_system_inode V JOURNAL_SYSTEM_INODE d = Inr b
                   \<and> v_read_inode V b = Inr di \<and> ij_dirty di))"
proof -
  define clean where
    "clean k \<longleftrightarrow> (\<exists>p. v_lookup_system_inode V JOURNAL_SYSTEM_INODE k = Inr (fst p) \<and>
                       v_read_inode V (fst p) = Inr (snd p) \<and> \<not> ij_dirty (snd p))" for k
  define d where "d = (LEAST k. k = n \<or> \<not> clean k)"
  have stop: "d = n \<or> \<not> clean d"
    unfolding d_def by (rule LeastI [of _ n]) simp
  have le: "d \<le> n"
    unfolding d_def by (rule Least_le) simp
  have "clean k" if "k < d" for k
    using not_less_Least [of k "\<lambda>k. k = n \<or> \<not> clean k"] that by (simp add: d_def)
  then have "\<forall>k. \<exists>p. k < d \<longrightarrow>
               v_lookup_system_inode V JOURNAL_SYSTEM_INODE k = Inr (fst p) \<and>
               v_read_inode V (fst p) = Inr (snd p) \<and> \<not> ij_dirty (snd p)"
    by (auto simp: clean_def)
  then have "\<exists>f. \<forall>k. k < d \<longrightarrow>
               v_lookup_system_inode V JOURNAL_SYSTEM_INODE k = Inr (fst (f k)) \<and>
               v_read_inode V (fst (f k)) = Inr (snd (f k)) \<and> \<not> ij_dirty (snd (f k))"
    by (rule choice)
  then obtain f where f: "\<forall>k. k < d \<longrightarrow>
               v_lookup_system_inode V JOURNAL_SYSTEM_INODE k = Inr (fst (f k)) \<and>
               v_read_inode V (fst (f k)) = Inr (snd (f k)) \<and> \<not> ij_dirty (snd (f k))"
    by blast
  have last: "d = n
        \<or> (\<exists>e. v_lookup_system_inode V JOURNAL_SYSTEM_INODE d = Inl e)
        \<or> (\<exists>b e. v_lookup_system_inode V JOURNAL_SYSTEM_INODE d = Inr b \<and> v_read_inode V b = Inl e)
        \<or> (\<exists>b di. v_lookup_system_inode V JOURNAL_SYSTEM_INODE d = Inr b
                   \<and> v_read_inode V b = Inr di \<and> ij_dirty di)"
  proof (cases "d = n")
    case True
    then show ?thesis by simp
  next
    case False
    then have nc: "\<not> clean d" using stop by simp
    show ?thesis
    proof (cases "v_lookup_system_inode V JOURNAL_SYSTEM_INODE d")
      case (Inl e)
      then show ?thesis by simp
    next
      case (Inr b)
      note look = Inr
      show ?thesis
      proof (cases "v_read_inode V b")
        case (Inl e)
        then show ?thesis using look by simp
      next
        case (Inr di)
        then have "ij_dirty di"
          using nc look by (auto simp: clean_def)
        then show ?thesis using look Inr by simp
      qed
    qed
  qed
  show ?thesis
    using le f last by (intro exI [of _ d] exI [of _ "\<lambda>k. fst (f k)"] exI [of _ "\<lambda>k. snd (f k)"]) simp
qed

text \<open>
  The check on the volume whose slot 0 is unreadable, and on the sample volume when
  \<^verbatim>\<open>journal_clusters\<close> is already 100.
\<close>

lemma unreadable_view_simps:
  "v_malloc_block unreadable_view = None"
  "v_lookup_system_inode unreadable_view JOURNAL_SYSTEM_INODE slot = Inr (20 + of_nat slot)"
  "v_read_inode unreadable_view 20 = Inl OCFS2_ET_IO"
  "v_read_inode unreadable_view 21 = Inr ((example_inode 21)\<lparr>ij_dirty := True\<rparr>)"
  by (simp_all add: unreadable_view_def example_view_def)

lemma unreadable_journal_check:
  "tunefs_journal_check unreadable_view 0 example_world
     = (Some OCFS2_ET_IO,
        example_world\<lparr>trace := [Ev_malloc, Ev_lookup_system_inode 0 JOURNAL_SYSTEM_INODE 0,
                                Ev_read_inode 0 20, Ev_message (Msg_io_error OCFS2_ET_IO)]\<rparr>)"
proof -
  have n: "unat (s_max_slots (fs_store example_world 0)) = 2"
    by (simp add: example_world_def example_fs_def)
  have v0: "v_lookup_system_inode unreadable_view JOURNAL_SYSTEM_INODE 0 = Inr 20"
    using unreadable_view_simps(2) [of 0] by simp
  show ?thesis
    unfolding tunefs_journal_check_def n
    apply (simp add: unreadable_view_simps(1))
    apply (subst journal_check_loop.simps)
    apply (simp add: v0 unreadable_view_simps(3))
    apply (simp add: verbosef_def emit_def example_world_def initial_world_def)
    done
qed

lemma raised_journal_check:
  "tunefs_journal_check example_view 0 (example_world\<lparr>journal_clusters := 100\<rparr>)
     = (None, example_world\<lparr>journal_clusters := 100,
          trace := [Ev_malloc, Ev_lookup_system_inode 0 JOURNAL_SYSTEM_INODE 0, Ev_read_inode 0 20,
                    Ev_lookup_system_inode 0 JOURNAL_SYSTEM_INODE 1, Ev_read_inode 0 21]\<rparr>)"
proof -
  let ?w = "example_world\<lparr>journal_clusters := 100\<rparr>"
  have n: "unat (s_max_slots (fs_store ?w 0)) = 2"
    by (simp add: example_world_def example_fs_def)
  have v: "v_malloc_block example_view = None"
    "v_lookup_system_inode example_view JOURNAL_SYSTEM_INODE 0 = Inr 20"
    "v_lookup_system_inode example_view JOURNAL_SYSTEM_INODE (Suc 0) = Inr 21"
    "v_read_inode example_view 20 = Inr (example_inode 20)"
    "v_read_inode example_view 21 = Inr (example_inode 21)"
    by (simp_all add: example_view_simps)
  have d: "\<not> ij_dirty (example_inode b)" "i_clusters (example_inode 20) = 5"
     "i_clusters (example_inode 21) = 7" for b
    by (simp_all add: example_inode_def)
  have t: "trace example_world = []"
    by (simp_all add: example_world_def initial_world_def)
  show ?thesis
    unfolding tunefs_journal_check_def n
    apply (simp add: v)
    apply (subst journal_check_loop_clean_step [OF _ v(2) v(4) d(1)], simp)
    apply (subst journal_check_loop_clean_step [OF _ v(3) v(5) d(1)], simp)
    apply (subst journal_check_loop.simps)
    apply (simp add: d emit_def t)
    done
qed

text \<open>
  C4 (as amended).  Let the volume have \<open>n\<close> slots and let the journal inodes of the
  slots before \<open>d \<le> n\<close> be found and read (slot \<open>k\<close> at block \<open>blk k\<close> with contents
  \<open>jd k\<close>) and be clean.  Then \<^verbatim>\<open>tunefs_journal_check\<close> stops at slot \<open>d\<close>:
  \<^item> if the scratch buffer is not allocated, it returns the allocation's error, has read
    no journal inode and leaves \<^verbatim>\<open>journal_clusters\<close> as it was;
  \<^item> if \<open>d = n\<close>, so that no slot stops the scan, it returns 0 and has read the \<open>n\<close>
    journal inodes in order;
  \<^item> if the journal inode of slot \<open>d\<close> is not found, it returns the lookup's error and has
    read the journal inodes of the slots before \<open>d\<close> only;
  \<^item> if the journal inode of slot \<open>d\<close>, at block \<open>b\<close>, is not read, it returns the read's
    error after the reads of the slots before \<open>d\<close> and the one attempted at \<open>b\<close>;
  \<^item> if the journal of slot \<open>d\<close> is dirty, it returns \<^verbatim>\<open>TUNEFS_ET_JOURNAL_DIRTY\<close> and has
    read the journal inodes of the slots \<open>0\<close> to \<open>d\<close>.

  In no case is the journal inode of a slot after \<open>d\<close> read, and \<^verbatim>\<open>journal_clusters\<close>
  ends as the largest of its old value and the sizes of the journals read.
\<close>

theorem tunefs_journal_check_verdict:
  assumes n: "n = unat (s_max_slots (fs_store w fs))"
    and d: "d \<le> n"
    and before: "\<forall>k<d. v_lookup_system_inode V JOURNAL_SYSTEM_INODE k = Inr (blk k) \<and>
                       v_read_inode V (blk k) = Inr (jd k) \<and> \<not> ij_dirty (jd k)"
  shows "(v_malloc_block V = Some e \<longrightarrow>
            fst (tunefs_journal_check V fs w) = Some e
            \<and> inodes_read (trace (snd (tunefs_journal_check V fs w))) = inodes_read (trace w)
            \<and> journal_clusters (snd (tunefs_journal_check V fs w)) = journal_clusters w)
       \<and> (v_malloc_block V = None \<and> d = n \<longrightarrow>
            fst (tunefs_journal_check V fs w) = None
            \<and> inodes_read (trace (snd (tunefs_journal_check V fs w)))
                = inodes_read (trace w) @ map blk [0..<n]
            \<and> journal_clusters (snd (tunefs_journal_check V fs w))
                = Max (insert (journal_clusters w) ((\<lambda>k. i_clusters (jd k)) ` {..<n})))
       \<and> (v_malloc_block V = None \<and> d < n
            \<and> v_lookup_system_inode V JOURNAL_SYSTEM_INODE d = Inl e \<longrightarrow>
            fst (tunefs_journal_check V fs w) = Some e
            \<and> inodes_read (trace (snd (tunefs_journal_check V fs w)))
                = inodes_read (trace w) @ map blk [0..<d]
            \<and> journal_clusters (snd (tunefs_journal_check V fs w))
                = Max (insert (journal_clusters w) ((\<lambda>k. i_clusters (jd k)) ` {..<d})))
       \<and> (v_malloc_block V = None \<and> d < n
            \<and> v_lookup_system_inode V JOURNAL_SYSTEM_INODE d = Inr b
            \<and> v_read_inode V b = Inl e \<longrightarrow>
            fst (tunefs_journal_check V fs w) = Some e
            \<and> inodes_read (trace (snd (tunefs_journal_check V fs w)))
                = inodes_read (trace w) @ map blk [0..<d] @ [b]
            \<and> journal_clusters (snd (tunefs_journal_check V fs w))
                = Max (insert (journal_clusters w) ((\<lambda>k. i_clusters (jd k)) ` {..<d})))
       \<and> (v_malloc_block V = None \<and> d < n
            \<and> v_lookup_system_inode V JOURNAL_SYSTEM_INODE d = Inr b
            \<and> v_read_inode V b = Inr di \<and> ij_dirty di \<longrightarrow>
            fst (tunefs_journal_check V fs w) = Some TUNEFS_ET_JOURNAL_DIRTY
            \<and> inodes_read (trace (snd (tunefs_journal_check V fs w)))
                = inodes_read (trace w) @ map blk [0..<d] @ [b]
            \<and> journal_clusters (snd (tunefs_journal_check V fs w))
                = max (i_clusters di)
                    (Max (insert (journal_clusters w) ((\<lambda>k. i_clusters (jd k)) ` {..<d}))))"
proof -
  let ?w0 = "emit Ev_malloc w"
  define wd where
    "wd = ?w0\<lparr>journal_clusters := fold max (map (\<lambda>k. i_clusters (jd k)) [0..<d]) (journal_clusters ?w0),
              trace := trace ?w0 @ concat (map (slot_events fs blk) [0..<d])\<rparr>"
  let ?r = "tunefs_journal_check V fs w"
  have pre: "\<forall>k. 0 \<le> k \<and> k < d \<longrightarrow>
             v_lookup_system_inode V JOURNAL_SYSTEM_INODE k = Inr (blk k) \<and>
             v_read_inode V (blk k) = Inr (jd k) \<and> \<not> ij_dirty (jd k)"
    using before by simp
  have run: "?r = journal_check_loop V fs n d wd" if "v_malloc_block V = None"
    using journal_check_loop_clean_prefix [OF pre _ d, of fs ?w0] that n
    by (simp add: tunefs_journal_check_def wd_def)
  have reads: "inodes_read (concat (map (slot_events fs blk) [0..<m])) = map blk [0..<m]" for m
    by (induction m) (simp_all add: inodes_read_simps slot_events_def)
  have img: "(\<lambda>k. i_clusters (jd k)) ` {..<m} = set (map (\<lambda>k. i_clusters (jd k)) [0..<m])" for m
    by (simp add: atLeast0LessThan)
  have to_Max: "fold max (map (\<lambda>k. i_clusters (jd k)) [0..<m]) (journal_clusters w)
                = Max (insert (journal_clusters w) ((\<lambda>k. i_clusters (jd k)) ` {..<m}))" for m
    by (simp only: fold_max_Max img)
  have wd: "inodes_read (trace wd) = inodes_read (trace w) @ map blk [0..<d]"
    "journal_clusters wd = Max (insert (journal_clusters w) ((\<lambda>k. i_clusters (jd k)) ` {..<d}))"
  proof -
    show "inodes_read (trace wd) = inodes_read (trace w) @ map blk [0..<d]"
      using reads [of d] by (simp add: wd_def emit_def inodes_read_simps)
    have "journal_clusters wd = fold max (map (\<lambda>k. i_clusters (jd k)) [0..<d]) (journal_clusters w)"
      by (simp add: wd_def emit_def)
    then show "journal_clusters wd
                 = Max (insert (journal_clusters w) ((\<lambda>k. i_clusters (jd k)) ` {..<d}))"
      by (simp only: to_Max)
  qed
  have no_buffer: "fst ?r = Some e \<and> inodes_read (trace (snd ?r)) = inodes_read (trace w)
                 \<and> journal_clusters (snd ?r) = journal_clusters w"
    if "v_malloc_block V = Some e"
    using that by (simp add: tunefs_journal_check_def verbosef_def emit_def inodes_read_simps)
  have all_clean: "fst ?r = None
            \<and> inodes_read (trace (snd ?r)) = inodes_read (trace w) @ map blk [0..<n]
            \<and> journal_clusters (snd ?r)
                = Max (insert (journal_clusters w) ((\<lambda>k. i_clusters (jd k)) ` {..<n}))"
    if "v_malloc_block V = None" "d = n"
  proof -
    have "?r = (None, wd)"
      using run [OF that(1)] that(2) by (subst (asm) journal_check_loop.simps) simp
    then have "fst ?r = None" "inodes_read (trace (snd ?r)) = inodes_read (trace wd)"
      "journal_clusters (snd ?r) = journal_clusters wd"
      by simp_all
    then show ?thesis
      using that(2) by (simp only: wd append_assoc)
  qed
  have no_lookup: "fst ?r = Some e
            \<and> inodes_read (trace (snd ?r)) = inodes_read (trace w) @ map blk [0..<d]
            \<and> journal_clusters (snd ?r)
                = Max (insert (journal_clusters w) ((\<lambda>k. i_clusters (jd k)) ` {..<d}))"
    if "v_malloc_block V = None" "d < n" "v_lookup_system_inode V JOURNAL_SYSTEM_INODE d = Inl e"
  proof -
    have "?r = (Some e, verbosef (Msg_io_error e)
                  (emit (Ev_lookup_system_inode fs JOURNAL_SYSTEM_INODE d) wd))"
      using run [OF that(1)] that(2,3) by (subst (asm) journal_check_loop.simps) simp
    then have "fst ?r = Some e" "inodes_read (trace (snd ?r)) = inodes_read (trace wd)"
      "journal_clusters (snd ?r) = journal_clusters wd"
      by (simp_all add: verbosef_def emit_def inodes_read_simps)
    then show ?thesis
      by (simp only: wd append_assoc)
  qed
  have no_read: "fst ?r = Some e
            \<and> inodes_read (trace (snd ?r)) = inodes_read (trace w) @ map blk [0..<d] @ [b]
            \<and> journal_clusters (snd ?r)
                = Max (insert (journal_clusters w) ((\<lambda>k. i_clusters (jd k)) ` {..<d}))"
    if "v_malloc_block V = None" "d < n" "v_lookup_system_inode V JOURNAL_SYSTEM_INODE d = Inr b"
      "v_read_inode V b = Inl e"
  proof -
    have "?r = (Some e, verbosef (Msg_io_error e)
                  (emit (Ev_read_inode fs b)
                     (emit (Ev_lookup_system_inode fs JOURNAL_SYSTEM_INODE d) wd)))"
      using run [OF that(1)] that(2,3,4) by (subst (asm) journal_check_loop.simps) simp
    then have "fst ?r = Some e" "inodes_read (trace (snd ?r)) = inodes_read (trace wd) @ [b]"
      "journal_clusters (snd ?r) = journal_clusters wd"
      by (simp_all add: verbosef_def emit_def inodes_read_simps)
    then show ?thesis
      by (simp only: wd append_assoc)
  qed
  have dirty: "fst ?r = Some TUNEFS_ET_JOURNAL_DIRTY
            \<and> inodes_read (trace (snd ?r)) = inodes_read (trace w) @ map blk [0..<d] @ [b]
            \<and> journal_clusters (snd ?r)
                = max (i_clusters di)
                    (Max (insert (journal_clusters w) ((\<lambda>k. i_clusters (jd k)) ` {..<d})))"
    if "v_malloc_block V = None" "d < n" "v_lookup_system_inode V JOURNAL_SYSTEM_INODE d = Inr b"
      "v_read_inode V b = Inr di" "ij_dirty di"
  proof -
    have "?r = (Some TUNEFS_ET_JOURNAL_DIRTY,
          wd\<lparr>journal_clusters := max (i_clusters di) (journal_clusters wd),
             trace := trace wd @ [Ev_lookup_system_inode fs JOURNAL_SYSTEM_INODE d, Ev_read_inode fs b,
                                 Ev_message (Msg_journal_dirty d)]\<rparr>)"
      using run [OF that(1)] journal_check_loop_dirty_step [OF that(2,3,4,5), of fs wd] by simp
    then have "fst ?r = Some TUNEFS_ET_JOURNAL_DIRTY"
      "inodes_read (trace (snd ?r)) = inodes_read (trace wd) @ [b]"
      "journal_clusters (snd ?r) = max (i_clusters di) (journal_clusters wd)"
      by (simp_all add: inodes_read_simps)
    then show ?thesis
      by (simp only: wd append_assoc)
  qed
  show ?thesis
    using no_buffer all_clean no_lookup no_read dirty by blast
qed

text \<open>
  On the sample volume with the journal of slot 0 dirty, only block 20 is read and 5
  clusters are recorded; with both journals clean the check succeeds, reads blocks 20 and
  21 and records 7 clusters; with the journal inode of slot 0 unreadable it returns the
  read's error and records nothing.
\<close>

theorem tunefs_journal_check_verdict_witness:
  "fst (tunefs_journal_check
          (example_view\<lparr>v_read_inode := (\<lambda>blkno. Inr ((example_inode blkno)\<lparr>ij_dirty := (blkno = 20)\<rparr>))\<rparr>)
          0 example_world) = Some TUNEFS_ET_JOURNAL_DIRTY
   \<and> inodes_read (trace (snd (tunefs_journal_check
          (example_view\<lparr>v_read_inode := (\<lambda>blkno. Inr ((example_inode blkno)\<lparr>ij_dirty := (blkno = 20)\<rparr>))\<rparr>)
          0 example_world))) = [20]
   \<and> journal_clusters (snd (tunefs_journal_check
          (example_view\<lparr>v_read_inode := (\<lambda>blkno. Inr ((example_inode blkno)\<lparr>ij_dirty := (blkno = 20)\<rparr>))\<rparr>)
          0 example_world)) = 5
   \<and> fst (tunefs_journal_check example_view 0 example_world) = None
   \<and> inodes_read (trace (snd (tunefs_journal_check example_view 0 example_world))) = [20, 21]
   \<and> journal_clusters (snd (tunefs_journal_check example_view 0 example_world)) = 7
   \<and> fst (tunefs_journal_check unreadable_view 0 example_world) = Some OCFS2_ET_IO
   \<and> inodes_read (trace (snd (tunefs_journal_check unreadable_view 0 example_world))) = [20]
   \<and> journal_clusters (snd (tunefs_journal_check unreadable_view 0 example_world)) = 0"
proof -
  let ?V = "example_view\<lparr>v_read_inode := (\<lambda>blkno. Inr ((example_inode blkno)\<lparr>ij_dirty := (blkno = 20)\<rparr>))\<rparr>"
  let ?di = "(example_inode 20)\<lparr>ij_dirty := True\<rparr>"
  let ?blk = "\<lambda>k::nat. 20 + of_nat k :: 64 word"
  let ?jd = "\<lambda>k::nat. example_inode (20 + of_nat k)"
  have n: "(2::nat) = unat (s_max_slots (fs_store example_world 0))"
    by (simp add: example_world_def example_fs_def)
  have t: "trace example_world = []" "journal_clusters example_world = 0"
    by (simp_all add: example_world_def initial_world_def)
  have d0: "(0::nat) \<le> 2" and d2: "(2::nat) \<le> 2" by simp_all
  have b0: "\<forall>k<(0::nat). v_lookup_system_inode V JOURNAL_SYSTEM_INODE k = Inr (?blk k) \<and>
                       v_read_inode V (?blk k) = Inr (?jd k) \<and> \<not> ij_dirty (?jd k)" for V
    by simp
  have b2: "\<forall>k<(2::nat). v_lookup_system_inode example_view JOURNAL_SYSTEM_INODE k = Inr (?blk k) \<and>
                       v_read_inode example_view (?blk k) = Inr (?jd k) \<and> \<not> ij_dirty (?jd k)"
    by (simp add: example_view_def example_inode_def)
  have dirty: "v_malloc_block ?V = None" "(0::nat) < 2"
    "v_lookup_system_inode ?V JOURNAL_SYSTEM_INODE 0 = Inr 20"
    "v_read_inode ?V 20 = Inr ?di" "ij_dirty ?di" "i_clusters ?di = 5"
    by (simp_all add: example_view_def example_inode_def)
  have two: "{..<2::nat} = {0, 1}" "[0..<2] = [0, 1]"
    by (auto simp: numeral_2_eq_2)
  have clean: "v_malloc_block example_view = None"
    "map ?blk [0..<2] = [20, 21]"
    "Max (insert 0 ((\<lambda>k. i_clusters (?jd k)) ` {..<2})) = 7"
    by (simp_all add: example_view_def example_inode_def two)
  have unreadable: "v_malloc_block unreadable_view = None"
    "v_lookup_system_inode unreadable_view JOURNAL_SYSTEM_INODE 0 = Inr 20"
    "v_read_inode unreadable_view 20 = Inl OCFS2_ET_IO"
    by (simp_all add: unreadable_view_def example_view_def)
  have A: "fst (tunefs_journal_check ?V 0 example_world) = Some TUNEFS_ET_JOURNAL_DIRTY
       \<and> inodes_read (trace (snd (tunefs_journal_check ?V 0 example_world))) = [20]
       \<and> journal_clusters (snd (tunefs_journal_check ?V 0 example_world)) = 5"
    using tunefs_journal_check_verdict [OF n d0 b0, where b = 20 and di = ?di and e = OCFS2_ET_IO] dirty t
    by (simp add: inodes_read_simps)
  have B: "fst (tunefs_journal_check example_view 0 example_world) = None
       \<and> inodes_read (trace (snd (tunefs_journal_check example_view 0 example_world))) = [20, 21]
       \<and> journal_clusters (snd (tunefs_journal_check example_view 0 example_world)) = 7"
    using tunefs_journal_check_verdict [OF n d2 b2, where b = 20 and di = ?di and e = OCFS2_ET_IO] clean t
    by (simp add: inodes_read_simps)
  have C: "fst (tunefs_journal_check unreadable_view 0 example_world) = Some OCFS2_ET_IO
       \<and> inodes_read (trace (snd (tunefs_journal_check unreadable_view 0 example_world))) = [20]
       \<and> journal_clusters (snd (tunefs_journal_check unreadable_view 0 example_world)) = 0"
    using tunefs_journal_check_verdict [OF n d0 b0, where b = 20 and di = ?di and e = OCFS2_ET_IO] unreadable t
    by (simp add: inodes_read_simps)
  show ?thesis
    using A B C by simp
qed

text \<open>
  On the two-slot volume whose journal inode of slot 0 is unreadable and whose journal of
  slot 1 is dirty, the check returns the read's error and not \<^verbatim>\<open>TUNEFS_ET_JOURNAL_DIRTY\<close>.
  On the sample volume, whose journals of 5 and 7 clusters are clean, started with
  \<^verbatim>\<open>journal_clusters\<close> at 100, the check succeeds and \<^verbatim>\<open>journal_clusters\<close> is still
  100, not 7.
\<close>

theorem tunefs_journal_check_verdict_counterexample:
  "unat (s_max_slots (fs_store example_world 0)) = 2
   \<and> v_lookup_system_inode unreadable_view JOURNAL_SYSTEM_INODE 1 = Inr 21
   \<and> v_read_inode unreadable_view 21 = Inr ((example_inode 21)\<lparr>ij_dirty := True\<rparr>)
   \<and> ij_dirty ((example_inode 21)\<lparr>ij_dirty := True\<rparr>)
   \<and> fst (tunefs_journal_check unreadable_view 0 example_world) = Some OCFS2_ET_IO
   \<and> fst (tunefs_journal_check unreadable_view 0 example_world) \<noteq> Some TUNEFS_ET_JOURNAL_DIRTY
   \<and> i_clusters (example_inode 20) = 5 \<and> i_clusters (example_inode 21) = 7
   \<and> fst (tunefs_journal_check example_view 0 (example_world\<lparr>journal_clusters := 100\<rparr>)) = None
   \<and> journal_clusters (snd (tunefs_journal_check example_view 0
                                (example_world\<lparr>journal_clusters := 100\<rparr>))) = 100"
proof -
  have "unat (s_max_slots (fs_store example_world 0)) = 2"
    by (simp add: example_world_def example_fs_def)
  moreover have "v_lookup_system_inode unreadable_view JOURNAL_SYSTEM_INODE 1 = Inr 21"
    using unreadable_view_simps(2) [of 1] by simp
  moreover have "i_clusters (example_inode 20) = 5" "i_clusters (example_inode 21) = 7"
    by (simp_all add: example_inode_def)
  ultimately show ?thesis
    by (simp add: unreadable_view_simps unreadable_journal_check raised_journal_check)
qed

subsection \<open>The allocator check\<close>

lemma find_next_bit_set_le:
  "offset \<le> sz \<Longrightarrow> ocfs2_find_next_bit_set addr sz offset \<le> sz"
proof (induction addr sz offset rule: ocfs2_find_next_bit_set.induct)
  case (1 addr sz offset)
  show ?case
  proof (cases "sz \<le> offset \<or> ocfs2_test_bit offset addr")
    case True
    then show ?thesis
      using "1.prems" by (subst ocfs2_find_next_bit_set.simps) auto
  next
    case False
    then have "ocfs2_find_next_bit_set addr sz (Suc offset) \<le> sz"
      using "1.IH" by simp
    then show ?thesis
      using False by (subst ocfs2_find_next_bit_set.simps) simp
  qed
qed

lemma count_free_bits_loop_le:
  "endp \<le> nbits \<Longrightarrow> count_free_bits_loop bitmap nbits endp bits \<le> bits + (nbits - endp)"
proof (induction bitmap nbits endp bits rule: count_free_bits_loop.induct)
  case (1 bitmap nbits endp bits)
  let ?start = "ocfs2_find_next_bit_clear bitmap nbits endp"
  let ?next = "ocfs2_find_next_bit_set bitmap nbits ?start"
  show ?case
  proof (cases "endp < nbits \<and> \<not> nbits \<le> ?start")
    case False
    then show ?thesis
      by (subst count_free_bits_loop.simps) auto
  next
    case True
    then have s: "endp \<le> ?start" "?start < nbits"
      by (simp_all add: find_next_bit_clear_ge)
    then have n: "?start < ?next" "?next \<le> nbits"
      by (simp_all add: find_next_bit_set_gt find_next_bit_clear_is_clear find_next_bit_set_le)
    have "count_free_bits_loop bitmap nbits ?next (bits + (?next - ?start))
            \<le> bits + (?next - ?start) + (nbits - ?next)"
      using "1.IH" True n by simp
    moreover have "count_free_bits_loop bitmap nbits endp bits
            = count_free_bits_loop bitmap nbits ?next (bits + (?next - ?start))"
      using True by (subst count_free_bits_loop.simps) simp
    ultimately show ?thesis
      using s n by simp
  qed
qed

lemma tunefs_count_free_bits_le: "tunefs_count_free_bits gd \<le> unat (bg_bits gd)"
  using count_free_bits_loop_le [of 0 "unat (bg_bits gd)" "bg_bitmap gd" 0]
  by (simp add: tunefs_count_free_bits_def)

lemma counted_word_eq:
  "((of_nat (tunefs_count_free_bits gd) :: 16 word) = bg_free_bits_count gd)
     \<longleftrightarrow> tunefs_count_free_bits gd = unat (bg_free_bits_count gd)"
proof -
  have "tunefs_count_free_bits gd < 2 ^ 16"
    using tunefs_count_free_bits_le [of gd] unsigned_less [of "bg_bits gd", where 'a = nat]
    by simp
  then have "unat (of_nat (tunefs_count_free_bits gd) :: 16 word) = tunefs_count_free_bits gd"
    by (simp add: unsigned_of_nat take_bit_nat_eq_self)
  then show ?thesis
    by auto
qed

text \<open>
  The five tests of \<^verbatim>\<open>tunefs_validate_chain_group\<close> all pass exactly when the descriptor
  is consistent and its stored free count is strictly below its total.
\<close>

lemma group_desc_fault_None_iff:
  "group_desc_fault di chain blkno gd = None
     \<longleftrightarrow> group_consistent di chain gd \<and> bg_free_bits_count gd \<noteq> bg_bits gd"
  by (auto simp: group_desc_fault_def group_consistent_def counted_word_eq mult.commute)

lemma validate_chain_walk_consistent:
  assumes "chain_from V blkno gds"
    and "\<forall>gd \<in> set gds. group_consistent di chain gd \<and> bg_free_bits_count gd \<noteq> bg_bits gd"
  shows "\<exists>w'. validate_chain_walk V fs di chain blkno t f w
           = Some (None, t + (\<Sum>gd\<leftarrow>gds. ucast (bg_bits gd)),
                   f + (\<Sum>gd\<leftarrow>gds. ucast (bg_free_bits_count gd)), w')"
  using assms
proof (induction gds arbitrary: blkno t f w)
  case Nil
  then show ?case by (subst validate_chain_walk.simps) simp
next
  case (Cons gd gds)
  then have here: "blkno \<noteq> 0" "v_read_group_desc V blkno = Inr gd"
    "group_desc_fault di chain blkno gd = None"
    by (simp_all add: group_desc_fault_None_iff)
  have next_ok: "chain_from V (bg_next_group gd) gds"
    and rest_ok: "\<forall>gd \<in> set gds. group_consistent di chain gd \<and> bg_free_bits_count gd \<noteq> bg_bits gd"
    using Cons.prems by simp_all
  have "\<exists>w'. validate_chain_walk V fs di chain (bg_next_group gd)
        (t + ucast (bg_bits gd)) (f + ucast (bg_free_bits_count gd))
        (emit (Ev_read_group_desc fs blkno) w)
      = Some (None, t + ucast (bg_bits gd) + (\<Sum>gd\<leftarrow>gds. ucast (bg_bits gd)),
              f + ucast (bg_free_bits_count gd) + (\<Sum>gd\<leftarrow>gds. ucast (bg_free_bits_count gd)), w')"
    by (rule Cons.IH [OF next_ok rest_ok])
  then show ?case
    using here by (subst validate_chain_walk.simps) (simp add: add.assoc)
qed

lemma validate_chain_group_consistent:
  assumes "v_malloc_block V = None"
    and "chain_from V (c_blkno (cl_recs di chain)) gds"
    and "\<forall>gd \<in> set gds. group_consistent di chain gd \<and> bg_free_bits_count gd \<noteq> bg_bits gd"
    and "c_total (cl_recs di chain) = (\<Sum>gd\<leftarrow>gds. ucast (bg_bits gd))"
    and "c_free (cl_recs di chain) = (\<Sum>gd\<leftarrow>gds. ucast (bg_free_bits_count gd))"
  shows "\<exists>w'. tunefs_validate_chain_group V fs di chain w = Some (None, w')"
proof -
  obtain w' where "validate_chain_walk V fs di chain (c_blkno (cl_recs di chain)) 0 0 (emit Ev_malloc w)
           = Some (None, 0 + (\<Sum>gd\<leftarrow>gds. ucast (bg_bits gd)),
                   0 + (\<Sum>gd\<leftarrow>gds. ucast (bg_free_bits_count gd)), w')"
    using validate_chain_walk_consistent [OF assms(2,3)] by blast
  then show ?thesis
    using assms(1,4,5) by (simp add: tunefs_validate_chain_group_def)
qed

lemma bitmap_check_loop_consistent:
  assumes "v_malloc_block V = None"
    and "\<forall>chain. i \<le> chain \<and> chain < unat (cl_next_free_rec di) \<longrightarrow>
           chain_from V (c_blkno (cl_recs di chain)) (groups chain)
           \<and> (\<forall>gd \<in> set (groups chain).
                 group_consistent di chain gd \<and> bg_free_bits_count gd \<noteq> bg_bits gd)
           \<and> c_total (cl_recs di chain) = (\<Sum>gd\<leftarrow>groups chain. ucast (bg_bits gd))
           \<and> c_free (cl_recs di chain) = (\<Sum>gd\<leftarrow>groups chain. ucast (bg_free_bits_count gd))"
  shows "\<exists>w'. bitmap_check_loop V fs di i w = Some (None, w')"
  using assms
proof (induction "unat (cl_next_free_rec di) - i" arbitrary: i w)
  case 0
  then show ?case by (subst bitmap_check_loop.simps) simp
next
  case (Suc m)
  then have lt: "i < unat (cl_next_free_rec di)" by simp
  obtain w1 where one: "tunefs_validate_chain_group V fs di i w = Some (None, w1)"
    using validate_chain_group_consistent [of V di i "groups i" fs w] Suc.prems lt by auto
  have m: "m = unat (cl_next_free_rec di) - Suc i"
    using Suc.hyps(2) by simp
  have rest: "\<forall>chain. Suc i \<le> chain \<and> chain < unat (cl_next_free_rec di) \<longrightarrow>
           chain_from V (c_blkno (cl_recs di chain)) (groups chain)
           \<and> (\<forall>gd \<in> set (groups chain).
                 group_consistent di chain gd \<and> bg_free_bits_count gd \<noteq> bg_bits gd)
           \<and> c_total (cl_recs di chain) = (\<Sum>gd\<leftarrow>groups chain. ucast (bg_bits gd))
           \<and> c_free (cl_recs di chain) = (\<Sum>gd\<leftarrow>groups chain. ucast (bg_free_bits_count gd))"
    using Suc.prems(2) Suc_leD by blast
  have "\<exists>w'. bitmap_check_loop V fs di (Suc i) w1 = Some (None, w')"
    by (rule Suc.hyps(1) [OF m Suc.prems(1) rest])
  then show ?case
    using lt one by (subst bitmap_check_loop.simps) simp
qed

lemma global_bitmap_check_consistent:
  assumes "v_malloc_block V = None"
    and "v_lookup_system_inode V GLOBAL_BITMAP_SYSTEM_INODE 0 = Inr bm_blkno"
    and "v_read_inode V bm_blkno = Inr di"
    and "\<forall>chain < unat (cl_next_free_rec di).
           chain_from V (c_blkno (cl_recs di chain)) (groups chain)
           \<and> (\<forall>gd \<in> set (groups chain).
                 group_consistent di chain gd \<and> bg_free_bits_count gd \<noteq> bg_bits gd)
           \<and> c_total (cl_recs di chain) = (\<Sum>gd\<leftarrow>groups chain. ucast (bg_bits gd))
           \<and> c_free (cl_recs di chain) = (\<Sum>gd\<leftarrow>groups chain. ucast (bg_free_bits_count gd))"
  shows "\<exists>w'. tunefs_global_bitmap_check V fs w = Some (None, w')"
  using assms bitmap_check_loop_consistent [of V 0 di groups fs]
  by (simp add: tunefs_global_bitmap_check_def)

lemma all_free_count: "tunefs_count_free_bits all_free_group = 8"
  by (simp add: tunefs_count_free_bits_def all_free_group_def example_group_def
        count_free_bits_loop.simps ocfs2_find_next_bit_clear.simps ocfs2_find_next_bit_set.simps
        ocfs2_test_bit_def)

lemma all_free_fault:
  "group_desc_fault all_free_inode 0 100 all_free_group = Some (Msg_free_over_total 10 100)"
  by (simp add: group_desc_fault_def all_free_count)
     (simp add: all_free_group_def all_free_inode_def example_group_def example_inode_def)

lemma all_free_view_simps:
  "v_malloc_block all_free_view = None"
  "v_lookup_system_inode all_free_view GLOBAL_BITMAP_SYSTEM_INODE slot = Inr 10"
  "v_read_inode all_free_view blkno = Inr all_free_inode"
  "v_read_group_desc all_free_view blkno = Inr all_free_group"
  by (simp_all add: all_free_view_def example_view_def)

lemma all_free_chain:
  "tunefs_validate_chain_group all_free_view fs all_free_inode 0 w
     = Some (Some OCFS2_ET_CORRUPT_CHAIN,
             verbosef (Msg_free_over_total 10 100) (emit (Ev_read_group_desc fs 100) (emit Ev_malloc w)))"
proof -
  have rec: "cl_recs all_free_inode 0 = \<lparr>c_free = 8, c_total = 8, c_blkno = 100\<rparr>"
    by (simp add: all_free_inode_def)
  have walk: "validate_chain_walk all_free_view fs all_free_inode 0 100 0 0 w'
     = Some (Some OCFS2_ET_CORRUPT_CHAIN, 0, 0,
             verbosef (Msg_free_over_total 10 100) (emit (Ev_read_group_desc fs 100) w'))" for w'
    by (subst validate_chain_walk.simps) (simp add: all_free_view_simps all_free_fault)
  show ?thesis
    by (simp add: tunefs_validate_chain_group_def rec all_free_view_simps walk)
qed

text \<open>
  C1. \<^verbatim>\<open>tunefs_global_bitmap_check\<close> is to succeed on an allocator in which every group
  descriptor belongs to its allocator and chain, stores the free count its bitmap gives, fits
  its bitmap and has no more free bits than total bits, and every chain record holds the sums
  of its groups.  The allocator of \<^term>\<open>all_free_view\<close> meets each of these (its one group
  has 8 bits, all free), and the check returns \<^verbatim>\<open>OCFS2_ET_CORRUPT_CHAIN\<close> for it with the
  diagnostic of the last test, "claims to have more free bits than total bits": the test is
  \<^verbatim>\<open>bg_free_bits_count >= bg_bits\<close>, so a group whose bits are all free is refused.
\<close>

theorem all_free_group_rejected:
  "tunefs_count_free_bits all_free_group = unat (bg_free_bits_count all_free_group)
   \<and> unat (bg_bits all_free_group) \<le> 8 * unat (bg_size all_free_group)
   \<and> bg_free_bits_count all_free_group \<le> bg_bits all_free_group
   \<and> bg_parent_dinode all_free_group = i_blkno all_free_inode
   \<and> unat (bg_chain all_free_group) = 0
   \<and> bg_next_group all_free_group = 0
   \<and> c_blkno (cl_recs all_free_inode 0) = 100
   \<and> c_total (cl_recs all_free_inode 0) = ucast (bg_bits all_free_group)
   \<and> c_free (cl_recs all_free_inode 0) = ucast (bg_free_bits_count all_free_group)
   \<and> tunefs_global_bitmap_check all_free_view 0 example_world
       = Some (Some OCFS2_ET_CORRUPT_CHAIN,
               example_world\<lparr>trace :=
                 [Ev_malloc, Ev_lookup_system_inode 0 GLOBAL_BITMAP_SYSTEM_INODE 0, Ev_read_inode 0 10,
                  Ev_malloc, Ev_read_group_desc 0 100,
                  Ev_message (Msg_free_over_total 10 100)]\<rparr>)"
proof -
  have n: "unat (cl_next_free_rec all_free_inode) = 1"
    by (simp add: all_free_inode_def example_inode_def)
  have loop: "bitmap_check_loop all_free_view 0 all_free_inode 0 w
                = Some (Some OCFS2_ET_CORRUPT_CHAIN,
                    verbosef (Msg_free_over_total 10 100)
                      (emit (Ev_read_group_desc 0 100) (emit Ev_malloc w)))" for w
    by (subst bitmap_check_loop.simps) (simp add: n all_free_chain)
  have run: "tunefs_global_bitmap_check all_free_view 0 example_world
       = Some (Some OCFS2_ET_CORRUPT_CHAIN,
               example_world\<lparr>trace :=
                 [Ev_malloc, Ev_lookup_system_inode 0 GLOBAL_BITMAP_SYSTEM_INODE 0, Ev_read_inode 0 10,
                  Ev_malloc, Ev_read_group_desc 0 100,
                  Ev_message (Msg_free_over_total 10 100)]\<rparr>)"
    by (simp add: tunefs_global_bitmap_check_def all_free_view_simps loop)
       (simp add: verbosef_def emit_def example_world_def initial_world_def)
  have fields: "unat (bg_bits all_free_group) \<le> 8 * unat (bg_size all_free_group)"
    "bg_free_bits_count all_free_group \<le> bg_bits all_free_group"
    "bg_parent_dinode all_free_group = i_blkno all_free_inode"
    "unat (bg_chain all_free_group) = 0"
    "bg_next_group all_free_group = 0"
    "c_blkno (cl_recs all_free_inode 0) = 100"
    "c_total (cl_recs all_free_inode 0) = ucast (bg_bits all_free_group)"
    "c_free (cl_recs all_free_inode 0) = ucast (bg_free_bits_count all_free_group)"
    "unat (bg_free_bits_count all_free_group) = 8"
    by (simp_all add: all_free_group_def all_free_inode_def example_group_def example_inode_def)
  show ?thesis
    using run fields all_free_count by simp
qed

section \<open>Operation runner\<close>

lemma closed_handles_tunefs_close_opt:
  "closed_handles (trace (snd (tunefs_close P fsp w))) = closed_handles (trace w) @ handle_list fsp"
proof (cases fsp)
  case None
  then show ?thesis by (simp add: tunefs_close_def handle_list_def)
next
  case (Some fs)
  then show ?thesis by (simp add: closed_handles_tunefs_close handle_list_def)
qed

lemma closed_handles_tcom_err_t:
  "closed_handles (trace (tcom_err_t e w)) = closed_handles (trace w)"
  by (simp add: tcom_err_t_def tcom_err_def verbosef_def trace_emit closed_handles_append
      closed_handles_single closed_by_def split: option.splits)

lemma main_arguments_to_run:
  "main_arguments (op\<lparr>to_run := other\<rparr>) argv w = main_arguments op argv w"
  by (simp add: main_arguments_def split: option.splits)

text \<open>The run of the sample operation, stage by stage.\<close>

lemma example_open_ro:
  "tunefs_open (example_platform\<lparr>x_ocfs2_close := c\<rparr>) ''/dev/sdc1'' {} w
     = Some (None, Some (next_fs w),
         w\<lparr>fs_list := next_fs w # fs_list w,
           fs_store := (fs_store w)(next_fs w := example_fs\<lparr>fs_private := True\<rparr>),
           next_fs := Suc (next_fs w),
           trace := trace w @ [Ev_ocfs2_open ''/dev/sdc1'' {OCFS2_FLAG_HEARTBEAT_DEV_OK, OCFS2_FLAG_RO},
                               Ev_malloc]\<rparr>)"
  by (simp add: tunefs_open_def example_platform_def Let_def emit_def tunefs_add_fs_def
      set_fs_private_def tunefs_open_out_def fatal_def)

lemma example_close:
  assumes "fs_store w fs = example_fs\<lparr>fs_private := True\<rparr>"
    and "local_fd_count w = 0" and "online_fd_count w = 0" and "\<not> cluster_locked w"
  shows "tunefs_close (example_platform\<lparr>x_ocfs2_close := c\<rparr>) (Some fs) w
           = (c (trace w @ [Ev_unsetenv]) fs,
              w\<lparr>fs_list := remove1 fs (fs_list w),
                fs_store := (fs_store w)(fs := example_fs),
                lock_env := None,
                trace := trace w @ [Ev_unsetenv, Ev_ocfs2_close fs]\<rparr>)"
  using assms
  by (simp add: tunefs_close_def Let_def tunefs_remove_fs_def set_fs_private_def
      tunefs_close_online_descriptor_def tunefs_unlock_cluster_def ocfs2_mount_local_def
      example_fs_def tunefs_unlock_local_def tunefs_set_lock_env_def example_platform_def
      ocfs2_close_def first_error_def emit_def)

lemma stage_init_run:
  "tunefs_init (example_platform\<lparr>x_ocfs2_close := c\<rparr>) ''tunefs'' [''/dev/sdc1''] initial_world
     = (Inr [''/dev/sdc1''], stage_init)"
  by (simp add: tunefs_init_def setup_signals_def tunefs_parse_core_options_def
      example_platform_def Let_def emit_def stage_init_def initial_world_def)

lemma stage_master_run:
  "tunefs_open (example_platform\<lparr>x_ocfs2_close := c\<rparr>) ''/dev/sdc1'' {} stage_init
     = Some (None, Some 0, stage_master)"
  by (simp add: example_open_ro stage_master_def) (simp add: stage_init_def initial_world_def)

lemma stage_operation_run:
  "tunefs_open (example_platform\<lparr>x_ocfs2_close := c\<rparr>) ''/dev/sdc1'' {} stage_master
     = Some (None, Some (Suc 0), stage_operation)"
  by (simp add: example_open_ro stage_operation_def)
     (simp add: stage_master_def stage_init_def initial_world_def)

lemma stage_close_operation:
  "tunefs_close (example_platform\<lparr>x_ocfs2_close := c\<rparr>) (Some (Suc 0)) (emit (Ev_run (Some (Suc 0)) {}) stage_operation)
     = (c (trace stage_operation @ [Ev_run (Some (Suc 0)) {}, Ev_unsetenv]) (Suc 0),
        stage_operation\<lparr>fs_list := [0],
          fs_store := (fs_store stage_operation)(Suc 0 := example_fs),
          lock_env := None,
          trace := trace stage_operation @ [Ev_run (Some (Suc 0)) {}, Ev_unsetenv, Ev_ocfs2_close (Suc 0)]\<rparr>)"
  by (subst example_close)
     (simp_all add: emit_def stage_operation_def stage_master_def stage_init_def initial_world_def)

lemma stage_close_master:
  assumes "trace w = trace stage_operation @ [Ev_run (Some (Suc 0)) {}, Ev_unsetenv, Ev_ocfs2_close (Suc 0)] @ es"
    and "w\<lparr>trace := []\<rparr> = stage_operation\<lparr>fs_list := [0],
          fs_store := (fs_store stage_operation)(Suc 0 := example_fs), lock_env := None, trace := []\<rparr>"
  shows "fst (tunefs_close (example_platform\<lparr>x_ocfs2_close := c\<rparr>) (Some 0) w)
           = c (trace w @ [Ev_unsetenv]) 0"
proof -
  have f: "fs_store w = (fs_store stage_operation)(Suc 0 := example_fs)"
    "local_fd_count w = 0" "online_fd_count w = 0" "\<not> cluster_locked w"
    using arg_cong [OF assms(2), of fs_store] arg_cong [OF assms(2), of local_fd_count]
      arg_cong [OF assms(2), of online_fd_count] arg_cong [OF assms(2), of cluster_locked]
    by (simp_all add: stage_operation_def stage_master_def stage_init_def initial_world_def)
  have "fs_store w 0 = example_fs\<lparr>fs_private := True\<rparr>"
    using f(1) by (simp add: stage_operation_def stage_master_def)
  then show ?thesis
    using f by (simp add: example_close)
qed

lemma example_arguments:
  "main_arguments (example_operation status) [''/dev/sdc1''] w = Inr ((), 1, w)"
  by (simp add: main_arguments_def example_operation_def)

lemma stage_no_close: "closed_handles (trace (emit (Ev_run (Some (Suc 0)) {}) stage_operation)) = []"
  by (simp add: emit_def stage_operation_def stage_master_def stage_init_def
      closed_handles_append closed_handles_single closed_by_def)

lemma example_main_status:
  assumes "c = (\<lambda>h fs. if fs = master then Some OCFS2_ET_IO else None)"
  shows "fst (the (tunefs_main (example_platform\<lparr>x_ocfs2_close := c\<rparr>) ''tunefs'' [''/dev/sdc1'']
                    (example_operation status) initial_world))
           = Returns (if master = 0 \<or> master = Suc 0 then 1 else status)"
proof -
  let ?P = "example_platform\<lparr>x_ocfs2_close := c\<rparr>"
  let ?w4 = "emit (Ev_run (Some (Suc 0)) {}) stage_operation"
  let ?c1 = "tunefs_close ?P (Some (Suc 0)) ?w4"
  let ?w5 = "tcom_err_t (fst ?c1) (snd ?c1)"
  have opf: "to_open_flags (example_operation status) = {}"
    by (simp add: example_operation_def)
  have e3: "fst ?c1 = (if master = Suc 0 then Some OCFS2_ET_IO else None)"
    by (simp add: stage_close_operation assms)
  have w5: "snd ?c1 = stage_operation\<lparr>fs_list := [0],
          fs_store := (fs_store stage_operation)(Suc 0 := example_fs),
          lock_env := None,
          trace := trace stage_operation @ [Ev_run (Some (Suc 0)) {}, Ev_unsetenv, Ev_ocfs2_close (Suc 0)]\<rparr>"
    by (simp add: stage_close_operation)
  have tr: "trace ?w5 = trace stage_operation @ [Ev_run (Some (Suc 0)) {}, Ev_unsetenv, Ev_ocfs2_close (Suc 0)]
                @ (if master = Suc 0 then [Ev_message (Msg_io_error OCFS2_ET_IO)] else [])"
    unfolding w5 e3 by (simp add: tcom_err_t_def tcom_err_def verbosef_def emit_def)
  have rest: "?w5\<lparr>trace := []\<rparr> = stage_operation\<lparr>fs_list := [0],
          fs_store := (fs_store stage_operation)(Suc 0 := example_fs), lock_env := None, trace := []\<rparr>"
    unfolding w5 e3 by (simp add: tcom_err_t_def tcom_err_def verbosef_def emit_def)
  have e4: "fst (tunefs_close ?P (Some 0) ?w5) = (if master = 0 then Some OCFS2_ET_IO else None)"
    using stage_close_master [OF tr rest, of c] by (simp add: assms)
  have "main_operation ?P (example_operation status) () ''/dev/sdc1'' {} (Some 0) 1 stage_master
          = Some (main_close_master ?P (Some 0) (if fst ?c1 \<noteq> None then 1 else status) ?w5)"
    by (simp add: main_operation_def stage_operation_run fatal_def example_operation_def Let_def)
  then have "fst (the (main_operation ?P (example_operation status) () ''/dev/sdc1'' {} (Some 0) 1
                    stage_master))
          = (if master = 0 \<or> master = Suc 0 then 1 else status)"
    using e3 e4 by (simp add: main_close_master_def Let_def)
  moreover have "tunefs_main ?P ''tunefs'' [''/dev/sdc1''] (example_operation status) initial_world
          = map_option (\<lambda>(rc', w'). (Returns rc', w'))
              (main_operation ?P (example_operation status) () ''/dev/sdc1'' {} (Some 0) 1 stage_master)"
    by (simp add: tunefs_main_def stage_init_run example_arguments main_master_def
        opf stage_master_run fatal_def main_flags_def)
  ultimately show ?thesis
    by (simp add: main_operation_def stage_operation_run fatal_def example_operation_def
        main_close_master_def Let_def split_def)
qed

text \<open>
  C7 (as amended).  Let \<^verbatim>\<open>tunefs_init\<close> and the argument checks pass, and let the
  master open return \<open>e1\<close>.

  If \<open>e1\<close> is an error other than the two reclassifications, \<^verbatim>\<open>tunefs_main\<close>
  returns at once with the value \<^verbatim>\<open>rc\<close> has then, and the run body is never
  invoked: the result is the same whatever the body is.

  Otherwise, if the operation handle opens and the body returns \<open>r\<close>, both handles
  are closed whatever \<open>r\<close> is, the operation handle first and the master handle
  last, and the value returned is \<open>r\<close> when both closes succeed and 1 when either
  fails.  So a failure of the body is reported as it is only if no close fails after it.
\<close>

theorem tunefs_main_teardown:
  assumes init: "tunefs_init P argv0 args w = (Inr argv, w0)"
    and parsed: "main_arguments op argv w0 = Inr (ud, rc0, w1)"
    and master: "tunefs_open P (argv ! 0) (to_open_flags op) w1 = Some (e1, master_fs, w2)"
  shows "(fatal e1 \<longrightarrow>
            tunefs_main P argv0 args op w = Some (Returns rc0, tcom_err_t e1 w2)
            \<and> tunefs_main P argv0 args (op\<lparr>to_run := other\<rparr>) w = tunefs_main P argv0 args op w)
       \<and> (\<not> fatal e1
          \<and> tunefs_open P (argv ! 0) (main_flags (to_open_flags op) e1) w2 = Some (e2, op_fs, w3)
          \<and> \<not> fatal e2
          \<and> to_run op op_fs (main_flags (to_open_flags op) e1) ud
               (emit (Ev_run op_fs (main_flags (to_open_flags op) e1)) w3) = Some (r, w4)
          \<and> tunefs_close P op_fs w4 = (e3, w5)
          \<and> tunefs_close P master_fs (tcom_err_t e3 w5) = (e4, w6) \<longrightarrow>
            tunefs_main P argv0 args op w
              = Some (Returns (if e3 = None \<and> e4 = None then r else 1), tcom_err_t e4 w6)
            \<and> closed_handles (trace (tcom_err_t e4 w6))
                = closed_handles (trace w4) @ handle_list op_fs @ handle_list master_fs)"
proof (intro conjI impI)
  assume f: "fatal e1"
  show "tunefs_main P argv0 args op w = Some (Returns rc0, tcom_err_t e1 w2)"
    using init parsed master f by (simp add: tunefs_main_def main_master_def)
  then show "tunefs_main P argv0 args (op\<lparr>to_run := other\<rparr>) w = tunefs_main P argv0 args op w"
    using init parsed master f
    by (simp add: tunefs_main_def main_master_def main_arguments_to_run)
next
  let ?flags = "main_flags (to_open_flags op) e1"
  assume a: "\<not> fatal e1
          \<and> tunefs_open P (argv ! 0) ?flags w2 = Some (e2, op_fs, w3)
          \<and> \<not> fatal e2
          \<and> to_run op op_fs ?flags ud (emit (Ev_run op_fs ?flags) w3) = Some (r, w4)
          \<and> tunefs_close P op_fs w4 = (e3, w5)
          \<and> tunefs_close P master_fs (tcom_err_t e3 w5) = (e4, w6)"
  have op_run: "main_operation P op ud (argv ! 0) ?flags master_fs rc0 w2
          = Some (if e4 \<noteq> None then 1 else if e3 \<noteq> None then 1 else r, tcom_err_t e4 w6)"
    using a by (simp add: main_operation_def main_close_master_def Let_def)
  show "tunefs_main P argv0 args op w
          = Some (Returns (if e3 = None \<and> e4 = None then r else 1), tcom_err_t e4 w6)"
    using init parsed master a op_run by (simp add: tunefs_main_def main_master_def)
  have "closed_handles (trace w5) = closed_handles (trace w4) @ handle_list op_fs"
    using a closed_handles_tunefs_close_opt [of P op_fs w4] by simp
  moreover have "closed_handles (trace w6)
                   = closed_handles (trace (tcom_err_t e3 w5)) @ handle_list master_fs"
    using a closed_handles_tunefs_close_opt [of P master_fs "tcom_err_t e3 w5"] by simp
  ultimately show "closed_handles (trace (tcom_err_t e4 w6))
                = closed_handles (trace w4) @ handle_list op_fs @ handle_list master_fs"
    by (simp add: closed_handles_tcom_err_t)
qed

text \<open>
  The sample operation succeeds and every close succeeds: handle 1 is closed, then
  handle 0, and the status is 0.
\<close>

theorem tunefs_main_teardown_witness:
  "tunefs_main (example_platform\<lparr>x_ocfs2_close := (\<lambda>h fs. None)\<rparr>) ''tunefs'' [''/dev/sdc1'']
      (example_operation 0) initial_world
     = Some (Returns 0,
         snd (tunefs_close (example_platform\<lparr>x_ocfs2_close := (\<lambda>h fs. None)\<rparr>) (Some 0)
               (snd (tunefs_close (example_platform\<lparr>x_ocfs2_close := (\<lambda>h fs. None)\<rparr>) (Some 1)
                  (emit (Ev_run (Some 1) {}) stage_operation)))))
   \<and> closed_handles (trace
         (snd (tunefs_close (example_platform\<lparr>x_ocfs2_close := (\<lambda>h fs. None)\<rparr>) (Some 0)
               (snd (tunefs_close (example_platform\<lparr>x_ocfs2_close := (\<lambda>h fs. None)\<rparr>) (Some 1)
                  (emit (Ev_run (Some 1) {}) stage_operation)))))) = [1, 0]"
proof -
  let ?P = "example_platform\<lparr>x_ocfs2_close := (\<lambda>h fs. None)\<rparr>"
  let ?op = "example_operation 0"
  let ?w4 = "emit (Ev_run (Some (Suc 0)) {}) stage_operation"
  let ?c1 = "tunefs_close ?P (Some (Suc 0)) ?w4"
  let ?c2 = "tunefs_close ?P (Some 0) (snd ?c1)"
  have fl: "to_open_flags ?op = {}" "main_flags {} None = {}"
    by (simp_all add: example_operation_def main_flags_def)
  have master: "tunefs_open ?P ([''/dev/sdc1''] ! 0) (to_open_flags ?op) stage_init
                  = Some (None, Some 0, stage_master)"
    by (simp add: fl stage_master_run)
  have e3: "fst ?c1 = None"
    by (simp add: stage_close_operation)
  have tr: "trace (snd ?c1) = trace stage_operation @ [Ev_run (Some (Suc 0)) {}, Ev_unsetenv, Ev_ocfs2_close (Suc 0)] @ []"
    by (simp add: stage_close_operation)
  have rest: "(snd ?c1)\<lparr>trace := []\<rparr> = stage_operation\<lparr>fs_list := [0],
          fs_store := (fs_store stage_operation)(Suc 0 := example_fs), lock_env := None, trace := []\<rparr>"
    by (simp add: stage_close_operation)
  have e4: "fst ?c2 = None"
    using stage_close_master [OF tr rest, of "\<lambda>h fs. None"] by simp
  have prem: "\<not> fatal None
          \<and> tunefs_open ?P ([''/dev/sdc1''] ! 0) (main_flags (to_open_flags ?op) None) stage_master
              = Some (None, Some (Suc 0), stage_operation)
          \<and> \<not> fatal None
          \<and> to_run ?op (Some (Suc 0)) (main_flags (to_open_flags ?op) None) ()
               (emit (Ev_run (Some (Suc 0)) (main_flags (to_open_flags ?op) None)) stage_operation)
              = Some (0, ?w4)
          \<and> tunefs_close ?P (Some (Suc 0)) ?w4 = (None, snd ?c1)
          \<and> tunefs_close ?P (Some 0) (tcom_err_t None (snd ?c1)) = (None, snd ?c2)"
    using e3 e4
    by (simp add: fl fatal_def stage_operation_run tcom_err_t_def prod_eq_iff)
       (simp add: example_operation_def)
  show ?thesis
    using tunefs_main_teardown [OF stage_init_run example_arguments master,
        where ?e2.0 = None and op_fs = "Some (Suc 0)" and ?w3.0 = stage_operation and r = 0
          and ?w4.0 = ?w4 and ?e3.0 = None and ?w5.0 = "snd ?c1" and ?e4.0 = None
          and ?w6.0 = "snd ?c2" and other = undefined] prem
    by (simp add: tcom_err_t_def handle_list_def stage_no_close)
qed

text \<open>
  The body fails with status 2, the operation handle closes, and the close of the master
  handle fails: the status returned is 1, not the body's.
\<close>

theorem tunefs_main_teardown_counterexample:
  "to_run (example_operation 2) (Some 1) {} () (emit (Ev_run (Some 1) {}) stage_operation)
     = Some (2, emit (Ev_run (Some 1) {}) stage_operation)
   \<and> fst (the (tunefs_main
        (example_platform\<lparr>x_ocfs2_close := (\<lambda>h fs. if fs = 0 then Some OCFS2_ET_IO else None)\<rparr>)
        ''tunefs'' [''/dev/sdc1''] (example_operation 2) initial_world)) = Returns 1"
  using example_main_status [of "\<lambda>h fs. if fs = 0 then Some OCFS2_ET_IO else None" 0 2]
  by (simp add: example_operation_def)

section \<open>Feature operations\<close>

text \<open>
  C9.  On a volume whose superblock already has the inline-data feature,
  \<^verbatim>\<open>enable_inline_data\<close>, called directly or through \<^verbatim>\<open>single_feature_run\<close> with the
  action \<^verbatim>\<open>FEATURE_ENABLE\<close>, reports that the feature is already enabled and returns 0.
  The world it leaves differs from the one it found by that one diagnostic: the
  superblock is not changed and nothing is written.  A second call right after does the
  same again.
\<close>

theorem enable_inline_data_idempotent:
  assumes "ocfs2_support_inline_data (fs_store w fs)"
  shows "enable_inline_data P (Some fs) flags w = Some (0, verbosef Msg_already_enabled w)
       \<and> single_feature_run (Some fs) flags
            (feat\<lparr>tf_action := FEATURE_ENABLE, tf_enable := enable_inline_data P\<rparr>) w
           = Some (0, verbosef Msg_already_enabled w)
       \<and> verbosef Msg_already_enabled w = w\<lparr>trace := trace w @ [Ev_message Msg_already_enabled]\<rparr>
       \<and> enable_inline_data P (Some fs) flags (verbosef Msg_already_enabled w)
           = Some (0, verbosef Msg_already_enabled (verbosef Msg_already_enabled w))"
proof -
  have once: "enable_inline_data P (Some fs) flags w = Some (0, verbosef Msg_already_enabled w)"
    using assms by (simp add: enable_inline_data_def)
  have same: "fs_store (verbosef Msg_already_enabled w) = fs_store w"
    by (simp add: verbosef_def emit_def)
  then have twice: "enable_inline_data P (Some fs) flags (verbosef Msg_already_enabled w)
           = Some (0, verbosef Msg_already_enabled (verbosef Msg_already_enabled w))"
    using assms by (simp add: enable_inline_data_def)
  show ?thesis
    using once twice by (simp add: single_feature_run_def verbosef_def emit_def)
qed

theorem enable_inline_data_idempotent_witness:
  "enable_inline_data example_platform (Some 0) {TUNEFS_FLAG_RW, TUNEFS_FLAG_ALLOCATION}
     (example_world\<lparr>fs_store := (\<lambda>fs. example_fs\<lparr>s_feature_incompat :=
                                       {OCFS2_FEATURE_INCOMPAT_INLINE_DATA}\<rparr>)\<rparr>)
   = Some (0, example_world\<lparr>fs_store := (\<lambda>fs. example_fs\<lparr>s_feature_incompat :=
                                       {OCFS2_FEATURE_INCOMPAT_INLINE_DATA}\<rparr>),
                            trace := [Ev_message Msg_already_enabled]\<rparr>)"
proof -
  let ?w = "example_world\<lparr>fs_store := (\<lambda>fs. example_fs\<lparr>s_feature_incompat :=
                                       {OCFS2_FEATURE_INCOMPAT_INLINE_DATA}\<rparr>)\<rparr>"
  have on: "ocfs2_support_inline_data (fs_store ?w 0)"
    by (simp add: ocfs2_support_inline_data_def)
  have t: "trace example_world = []"
    by (simp add: example_world_def initial_world_def)
  show ?thesis
    using enable_inline_data_idempotent [OF on, of example_platform
        "{TUNEFS_FLAG_RW, TUNEFS_FLAG_ALLOCATION}" undefined] t
    by simp
qed

end
